theory Spec2Isabelle
  imports Main "HOL-Library.AList"
begin

section \<open>Live polling server: data model\<close>

text \<open>
  The server keeps all of its state in memory: a \<open>Map\<close> from poll id to poll object, a
  \<open>Map\<close> of students waiting for a teacher, and the id of the active poll. A JavaScript
  \<open>Map\<close> keeps insertion order, so it is an association list here, written with
  \<open>AList.update\<close> (replace in place or append), \<open>AList.delete\<close> and \<open>map_of\<close>; its
  \<open>size\<close> is the length of the list. A \<open>Set\<close> is a list without repetition.

  Poll objects are shared by reference between the \<open>polls\<close> map and the closures of the
  running timers, so they live in an explicit store: the list \<open>heap\<close>, an address being
  an index. Socket ids, poll ids and uuids are strings; timestamps and durations are
  integers. Values produced outside the program (\<open>uuidv4()\<close>, \<open>Date.now()\<close>) are inputs
  of the handlers, and so is the moment a timer fires: the firing of an armed timer is
  an event like any message from a socket.

  Payloads are JavaScript object literals; they are kept as such (\<open>jsval\<close>), field by
  field in the order of the source, so that a statement can ask which fields a message
  has. Objects that stay in the state are records.
\<close>

type_synonym sid = string
type_synonym pid = string
type_synonym uid = string

datatype jsval =
    JNull
  | JNum int
  | JStr string
  | JArr "jsval list"
  | JObj "(string \<times> jsval) list"

datatype status = Active | Finished

datatype reason = Ended | Timeout | All_answered | Teacher_end

record student =
  s_id :: sid
  s_name :: string

record opt =
  opt_id :: uid
  opt_text :: string
  opt_count :: nat

record question =
  q_id :: uid
  q_text :: string
  q_options :: "opt list"
  q_askedAt :: int
  q_durationSec :: int
  q_totalAnswers :: nat
  q_status :: status
  q_answeredBy :: "sid list"
  q_timerRef :: "nat option"

record qresult =
  r_questionId :: uid
  r_text :: string
  r_options :: "opt list"
  r_totalAnswers :: nat
  r_durationSec :: int

record past_question =
  h_questionId :: uid
  h_text :: string
  h_options :: "opt list"
  h_totalAnswers :: nat
  h_durationSec :: int
  h_finishedAt :: int
  h_reason :: reason

record poll =
  p_id :: pid
  teacherSocketId :: "sid option"
  students :: "(sid \<times> student) list"
  currentQuestion :: "question option"
  pastQuestions :: "past_question list"

record state =
  heap :: "poll list"
  polls :: "(pid \<times> nat) list"
  waitingStudents :: "(sid \<times> string) list"
  activePollId :: "pid option"
  timers :: "(nat \<times> nat) list"
  nextTimer :: nat
  sockets :: "sid list"

text \<open>
  \<open>timers\<close> holds the armed timeouts: handle and address of the poll that the callback
  closes over. \<open>sockets\<close> is the transport's table of live connections
  (\<open>io.sockets.sockets\<close>).
\<close>

datatype target = ToSocket sid | ToRoom pid

datatype effect =
    Emit target string jsval
  | Join sid pid
  | Leave sid pid

definition init :: state where
  "init = \<lparr>heap = [], polls = [], waitingStudents = [], activePollId = None,
            timers = [], nextTimer = 0, sockets = []\<rparr>"

section \<open>JavaScript helpers\<close>

definition truthy :: "string option \<Rightarrow> bool" where
  "truthy v = (case v of None \<Rightarrow> False | Some s \<Rightarrow> s \<noteq> [])"

text \<open>
  \<open>String(x || '').trim().slice(0, n)\<close> on a string: an absent or empty value is the
  empty string, \<open>trim\<close> drops white space at both ends, \<open>slice(0, n)\<close> is \<open>take n\<close>.
  A \<open>char\<close> stands for a code unit below 256. Of these, \<open>trim\<close> strips tab, line feed,
  vertical tab, form feed, carriage return, space and the no-break space U+00A0; the
  white space above 255 (U+FEFF, U+2028 and the like) cannot occur in a \<open>string\<close> here.
\<close>

definition is_space :: "char \<Rightarrow> bool" where
  "is_space c =
     (c \<in> set [CHR 0x09, CHR 0x0A, CHR 0x0B, CHR 0x0C, CHR 0x0D, CHR '' '', CHR 0xA0])"

definition trim :: "string \<Rightarrow> string" where
  "trim s = rev (dropWhile is_space (rev (dropWhile is_space s)))"

definition set_add :: "'a \<Rightarrow> 'a list \<Rightarrow> 'a list" where
  "set_add x xs = (if x \<in> set xs then xs else xs @ [x])"

text \<open>
  Reading and writing the store. Every address the program holds is inside the store;
  a handler given an address outside returns the state as it is.
\<close>

definition heap_get :: "state \<Rightarrow> nat \<Rightarrow> poll option" where
  "heap_get s a = (if a < length (heap s) then Some (heap s ! a) else None)"

definition heap_set :: "state \<Rightarrow> nat \<Rightarrow> poll \<Rightarrow> state" where
  "heap_set s a p = s\<lparr>heap := (heap s)[a := p]\<rparr>"

text \<open>\<open>polls.get(pollId)\<close>: the reference (address) and the object it points to.\<close>

definition polls_get :: "state \<Rightarrow> pid option \<Rightarrow> (nat \<times> poll) option" where
  "polls_get s pollId =
     (case pollId of None \<Rightarrow> None
      | Some i \<Rightarrow>
        (case map_of (polls s) i of None \<Rightarrow> None
         | Some a \<Rightarrow> (case heap_get s a of None \<Rightarrow> None | Some p \<Rightarrow> Some (a, p))))"

definition clearTimeout :: "nat option \<Rightarrow> (nat \<times> nat) list \<Rightarrow> (nat \<times> nat) list" where
  "clearTimeout r ts = (case r of None \<Rightarrow> ts | Some h \<Rightarrow> AList.delete h ts)"

section \<open>Payloads\<close>

definition enc_status :: "status \<Rightarrow> jsval" where
  "enc_status st = (case st of Active \<Rightarrow> JStr ''active'' | Finished \<Rightarrow> JStr ''finished'')"

definition enc_reason :: "reason \<Rightarrow> jsval" where
  "enc_reason r =
     (case r of Ended \<Rightarrow> JStr ''ended'' | Timeout \<Rightarrow> JStr ''timeout''
      | All_answered \<Rightarrow> JStr ''all_answered'' | Teacher_end \<Rightarrow> JStr ''teacher_end'')"

definition enc_student :: "student \<Rightarrow> jsval" where
  "enc_student st = JObj [(''id'', JStr (s_id st)), (''name'', JStr (s_name st))]"

definition roster :: "poll \<Rightarrow> jsval" where
  "roster p = JArr (map (\<lambda>(k, st). enc_student st) (students p))"

text \<open>\<open>({ id, text, count }) => ({ id, text, count })\<close>\<close>

definition enc_opt :: "opt \<Rightarrow> jsval" where
  "enc_opt x = JObj [(''id'', JStr (opt_id x)), (''text'', JStr (opt_text x)),
                     (''count'', JNum (int (opt_count x)))]"

text \<open>\<open>({ id, text }) => ({ id, text })\<close>\<close>

definition enc_opt_public :: "opt \<Rightarrow> jsval" where
  "enc_opt_public x = JObj [(''id'', JStr (opt_id x)), (''text'', JStr (opt_text x))]"

definition enc_result :: "qresult \<Rightarrow> jsval" where
  "enc_result r =
     JObj [(''questionId'', JStr (r_questionId r)), (''text'', JStr (r_text r)),
           (''options'', JArr (map enc_opt (r_options r))),
           (''totalAnswers'', JNum (int (r_totalAnswers r))),
           (''durationSec'', JNum (r_durationSec r))]"

definition enc_past :: "past_question \<Rightarrow> jsval" where
  "enc_past h =
     JObj [(''questionId'', JStr (h_questionId h)), (''text'', JStr (h_text h)),
           (''options'', JArr (map enc_opt (h_options h))),
           (''totalAnswers'', JNum (int (h_totalAnswers h))),
           (''durationSec'', JNum (h_durationSec h)),
           (''finishedAt'', JNum (h_finishedAt h)),
           (''reason'', enc_reason (h_reason h))]"

text \<open>The \<open>currentQuestion\<close> field of the \<open>teacher:ready\<close> and \<open>student:ready\<close> payloads.\<close>

definition snapshot :: "question option \<Rightarrow> jsval" where
  "snapshot cq =
     (case cq of None \<Rightarrow> JNull
      | Some q \<Rightarrow>
        JObj [(''id'', JStr (q_id q)), (''text'', JStr (q_text q)),
              (''options'', JArr (map enc_opt (q_options q))),
              (''askedAt'', JNum (q_askedAt q)),
              (''durationSec'', JNum (q_durationSec q)),
              (''totalAnswers'', JNum (int (q_totalAnswers q))),
              (''status'', enc_status (q_status q))])"

definition student_ready :: "poll \<Rightarrow> jsval" where
  "student_ready p =
     JObj [(''currentQuestion'', snapshot (currentQuestion p)),
           (''pastQuestions'', JArr (map enc_past (pastQuestions p)))]"

definition teacher_ready :: "poll \<Rightarrow> jsval" where
  "teacher_ready p =
     JObj [(''pollId'', JStr (p_id p)), (''students'', roster p),
           (''currentQuestion'', snapshot (currentQuestion p)),
           (''pastQuestions'', JArr (map enc_past (pastQuestions p)))]"

text \<open>Reading a field of a payload object.\<close>

definition field :: "string \<Rightarrow> jsval \<Rightarrow> jsval option" where
  "field k v = (case v of JObj kvs \<Rightarrow> map_of kvs k | _ \<Rightarrow> None)"

section \<open>Operations\<close>

definition createPoll :: "state \<Rightarrow> uid \<Rightarrow> state \<times> nat \<times> poll" where
  "createPoll s uuid =
     (let i = take 6 uuid;
          a = length (heap s);
          p = \<lparr>p_id = i, teacherSocketId = None, students = [],
               currentQuestion = None, pastQuestions = []\<rparr>
      in (s\<lparr>heap := heap s @ [p], polls := AList.update i a (polls s)\<rparr>, a, p))"

definition canAskNewQuestion :: "poll \<Rightarrow> bool" where
  "canAskNewQuestion p =
     (case currentQuestion p of None \<Rightarrow> True
      | Some q \<Rightarrow>
        (let everyoneAnswered =
               (q_totalAnswers q \<ge> length (students p) \<and> length (students p) > 0);
             finished = (q_status q \<noteq> Active)
         in everyoneAnswered \<or> finished))"

definition result_of :: "question \<Rightarrow> qresult" where
  "result_of q =
     \<lparr>r_questionId = q_id q, r_text = q_text q, r_options = q_options q,
      r_totalAnswers = q_totalAnswers q, r_durationSec = q_durationSec q\<rparr>"

text \<open>\<open>{ ...result, finishedAt: Date.now(), reason }\<close>\<close>

definition past_of :: "qresult \<Rightarrow> int \<Rightarrow> reason \<Rightarrow> past_question" where
  "past_of r now rs =
     \<lparr>h_questionId = r_questionId r, h_text = r_text r, h_options = r_options r,
      h_totalAnswers = r_totalAnswers r, h_durationSec = r_durationSec r,
      h_finishedAt = now, h_reason = rs\<rparr>"

text \<open>
  \<open>endQuestion(io, poll, reason)\<close> on the poll object at address \<open>a\<close>. The question gets
  status \<open>finished\<close>, its timer is cleared, the result goes to the front of the history
  and, without \<open>finishedAt\<close> and \<open>reason\<close>, to the room; then the poll has no question.
\<close>

definition endQuestion :: "state \<Rightarrow> nat \<Rightarrow> reason \<Rightarrow> int \<Rightarrow> state \<times> effect list" where
  "endQuestion s a rs now =
     (case heap_get s a of None \<Rightarrow> (s, [])
      | Some p \<Rightarrow>
        (case currentQuestion p of None \<Rightarrow> (s, [])
         | Some q0 \<Rightarrow>
           (let q = q0\<lparr>q_status := Finished\<rparr>;
                s1 = s\<lparr>timers := clearTimeout (q_timerRef q) (timers s)\<rparr>;
                result = result_of q;
                p1 = p\<lparr>pastQuestions := past_of result now rs # pastQuestions p\<rparr>;
                out = [Emit (ToRoom (p_id p)) ''questionFinished'' (enc_result result)];
                p2 = p1\<lparr>currentQuestion := None\<rparr>
            in (heap_set s1 a p2, out))))"

text \<open>The values of the \<open>polls\<close> map, in insertion order, each with its address.\<close>

definition polls_values :: "state \<Rightarrow> (nat \<times> poll) list" where
  "polls_values s =
     List.map_filter (\<lambda>(i, a). map_option (Pair a) (heap_get s a)) (polls s)"

definition has :: "'k \<Rightarrow> ('k \<times> 'v) list \<Rightarrow> bool" where
  "has k m = (map_of m k \<noteq> None)"

definition getLatestActivePoll :: "state \<Rightarrow> (nat \<times> poll) option" where
  "getLatestActivePoll s =
     fold (\<lambda>(a, p) latest. if truthy (teacherSocketId p) then Some (a, p) else latest)
          (polls_values s) None"

definition findPollByStudentSocket :: "state \<Rightarrow> sid \<Rightarrow> (nat \<times> poll) option" where
  "findPollByStudentSocket s sock = find (\<lambda>(a, p). has sock (students p)) (polls_values s)"

section \<open>Socket handlers\<close>

text \<open>
  Every handler takes the state and the id of the socket the event came from, and
  returns the new state with the list of effects on the transport, in order.
\<close>

text \<open>
  The loop of \<open>teacher:init\<close> over the waiting students. It runs over the entries the map
  had when the loop began; every entry visited is deleted from the map.
\<close>

fun attach_waiting ::
  "(sid \<times> string) list \<Rightarrow> sid list \<Rightarrow> (sid \<times> string) list \<times> poll \<times> effect list \<Rightarrow>
   (sid \<times> string) list \<times> poll \<times> effect list" where
  "attach_waiting [] live acc = acc"
| "attach_waiting ((sd, name) # es) live (w, p, out) =
     (if sd \<notin> set live then attach_waiting es live (AList.delete sd w, p, out)
      else
        (let st = \<lparr>s_id = sd, s_name = take 40 (trim name)\<rparr>;
             p1 = p\<lparr>students := AList.update sd st (students p)\<rparr>
         in attach_waiting es live
              (AList.delete sd w, p1,
               out @ [Join sd (p_id p1),
                      Emit (ToRoom (p_id p1)) ''roster:update'' (roster p1),
                      Emit (ToSocket sd) ''student:ready'' (student_ready p1)])))"

definition on_teacher_init :: "state \<Rightarrow> sid \<Rightarrow> pid option \<Rightarrow> uid \<Rightarrow> state \<times> effect list" where
  "on_teacher_init s sock pollId uuid =
     (let (s1, a, p) =
            (case (if truthy pollId then polls_get s pollId else None) of
               Some (a, p) \<Rightarrow> (s, a, p)
             | None \<Rightarrow> createPoll s uuid);
          p1 = p\<lparr>teacherSocketId := Some sock\<rparr>;
          s2 = s1\<lparr>activePollId := Some (p_id p1)\<rparr>;
          out = [Join sock (p_id p1),
                 Emit (ToSocket sock) ''teacher:ready'' (teacher_ready p1)];
          (w, p2, out2) = attach_waiting (waitingStudents s2) (sockets s2)
                            (waitingStudents s2, p1, out)
      in (heap_set (s2\<lparr>waitingStudents := w\<rparr>) a p2, out2))"

text \<open>
  The poll a joining student is attached to: the one asked for, else the active one,
  else the latest one that has a teacher.
\<close>

definition student_poll :: "state \<Rightarrow> pid option \<Rightarrow> (nat \<times> poll) option" where
  "student_poll s pollId =
     (if truthy pollId \<and> polls_get s pollId \<noteq> None then polls_get s pollId
      else if truthy (activePollId s) \<and> polls_get s (activePollId s) \<noteq> None
           then polls_get s (activePollId s)
      else getLatestActivePoll s)"

definition on_student_init :: "state \<Rightarrow> sid \<Rightarrow> pid option \<Rightarrow> string \<Rightarrow> state \<times> effect list" where
  "on_student_init s sock pollId name =
     (let studentName = take 40 (trim name)
      in case student_poll s pollId of
           None \<Rightarrow>
             (s\<lparr>waitingStudents := AList.update sock studentName (waitingStudents s)\<rparr>,
              [Emit (ToSocket sock) ''student:waiting'' JNull])
         | Some (a, p) \<Rightarrow>
             (let st = \<lparr>s_id = sock, s_name = studentName\<rparr>;
                  p1 = p\<lparr>students := AList.update sock st (students p)\<rparr>
              in (heap_set s a p1,
                  [Join sock (p_id p1),
                   Emit (ToRoom (p_id p1)) ''roster:update'' (roster p1),
                   Emit (ToSocket sock) ''student:ready'' (student_ready p1)])))"

definition normalize_options :: "string list \<Rightarrow> (nat \<Rightarrow> uid) \<Rightarrow> opt list" where
  "normalize_options options uuids =
     map (\<lambda>(i, t). \<lparr>opt_id = uuids i, opt_text = take 80 t, opt_count = 0\<rparr>)
         (enumerate 0 (if options = [] then [''A'', ''B'', ''C'', ''D''] else options))"

definition clamp_duration :: "int option \<Rightarrow> int" where
  "clamp_duration durationSec =
     (case durationSec of None \<Rightarrow> 60 | Some d \<Rightarrow> if d > 0 then min d 300 else 60)"

definition question_asked :: "question \<Rightarrow> jsval" where
  "question_asked q =
     JObj [(''id'', JStr (q_id q)), (''text'', JStr (q_text q)),
           (''options'', JArr (map enc_opt_public (q_options q))),
           (''askedAt'', JNum (q_askedAt q)),
           (''durationSec'', JNum (q_durationSec q))]"

definition error_message :: "sid \<Rightarrow> string \<Rightarrow> effect" where
  "error_message sock m = Emit (ToSocket sock) ''errorMessage'' (JStr m)"

text \<open>
  \<open>teacher:askQuestion\<close>. \<open>uuid\<close> is the question's id and \<open>uuids i\<close> the id of option
  \<open>i\<close>; the timer armed for the question gets the next free handle and closes over
  the poll object.
\<close>

definition on_askQuestion ::
  "state \<Rightarrow> sid \<Rightarrow> pid option \<Rightarrow> string \<Rightarrow> string list \<Rightarrow> int option \<Rightarrow> uid \<Rightarrow>
   (nat \<Rightarrow> uid) \<Rightarrow> int \<Rightarrow> state \<times> effect list" where
  "on_askQuestion s sock pollId text options durationSec uuid uuids now =
     (case polls_get s pollId of
        None \<Rightarrow> (s, [error_message sock ''Poll not found''])
      | Some (a, p) \<Rightarrow>
          if teacherSocketId p \<noteq> Some sock then (s, [error_message sock ''Not authorized''])
          else if \<not> canAskNewQuestion p
               then (s, [error_message sock ''Wait until previous question finishes''])
          else
            (let h = nextTimer s;
                 question =
                   \<lparr>q_id = uuid,
                    q_text = take 140 (if text = [] then ''Question'' else text),
                    q_options = normalize_options options uuids,
                    q_askedAt = now,
                    q_durationSec = clamp_duration durationSec,
                    q_totalAnswers = 0,
                    q_status = Active,
                    q_answeredBy = [],
                    q_timerRef = Some h\<rparr>;
                 p1 = p\<lparr>currentQuestion := Some question\<rparr>;
                 s1 = (heap_set s a p1)\<lparr>timers := timers s @ [(h, a)], nextTimer := Suc h\<rparr>
             in (s1, [Emit (ToRoom (p_id p1)) ''questionAsked'' (question_asked question)])))"

text \<open>\<open>option.count += 1\<close> on the first option that \<open>find\<close> returns.\<close>

fun bump_option :: "uid \<Rightarrow> opt list \<Rightarrow> opt list" where
  "bump_option optionId [] = []"
| "bump_option optionId (x # xs) =
     (if opt_id x = optionId then x\<lparr>opt_count := opt_count x + 1\<rparr> # xs
      else x # bump_option optionId xs)"

definition results_update :: "poll \<Rightarrow> question \<Rightarrow> jsval" where
  "results_update p q =
     JObj [(''questionId'', JStr (q_id q)),
           (''options'', JArr (map enc_opt (q_options q))),
           (''totalAnswers'', JNum (int (q_totalAnswers q))),
           (''studentsTotal'', JNum (int (length (students p))))]"

text \<open>
  The poll a \<open>student:submit\<close> or \<open>chat:send\<close> is about:
  \<open>pollId ? polls.get(pollId) : findPollByStudentSocket(socket.id)\<close>.
\<close>

definition lookup_poll :: "state \<Rightarrow> sid \<Rightarrow> pid option \<Rightarrow> (nat \<times> poll) option" where
  "lookup_poll s sock pollId =
     (if truthy pollId then polls_get s pollId else findPollByStudentSocket s sock)"

text \<open>
  \<open>option.count += 1; q.totalAnswers += 1; q.answeredBy.add(socket.id)\<close>
\<close>

definition record_answer :: "question \<Rightarrow> sid \<Rightarrow> uid \<Rightarrow> question" where
  "record_answer q sock optionId =
     q\<lparr>q_options := bump_option optionId (q_options q),
       q_totalAnswers := q_totalAnswers q + 1,
       q_answeredBy := set_add sock (q_answeredBy q)\<rparr>"

definition on_submit ::
  "state \<Rightarrow> sid \<Rightarrow> pid option \<Rightarrow> uid \<Rightarrow> uid \<Rightarrow> int \<Rightarrow> state \<times> effect list" where
  "on_submit s sock pollId questionId optionId now =
     (case lookup_poll s sock pollId of
        None \<Rightarrow> (s, [])
      | Some (a, p) \<Rightarrow>
          (case currentQuestion p of
             None \<Rightarrow> (s, [])
           | Some q \<Rightarrow>
               if q_id q \<noteq> questionId \<or> q_status q \<noteq> Active then (s, [])
               else if sock \<in> set (q_answeredBy q) then (s, [])
               else
                 (case find (\<lambda>x. opt_id x = optionId) (q_options q) of
                    None \<Rightarrow> (s, [])
                  | Some _ \<Rightarrow>
                      (let q1 = record_answer q sock optionId;
                           p1 = p\<lparr>currentQuestion := Some q1\<rparr>;
                           s1 = heap_set s a p1;
                           out = [Emit (ToRoom (p_id p1)) ''results:update''
                                    (results_update p1 q1)]
                       in if q_totalAnswers q1 \<ge> length (students p1)
                             \<and> length (students p1) > 0
                          then (let (s2, out2) = endQuestion s1 a All_answered now
                                in (s2, out @ out2))
                          else (s1, out)))))"

definition on_endQuestion :: "state \<Rightarrow> sid \<Rightarrow> pid option \<Rightarrow> int \<Rightarrow> state \<times> effect list" where
  "on_endQuestion s sock pollId now =
     (case polls_get s pollId of
        None \<Rightarrow> (s, [])
      | Some (a, p) \<Rightarrow>
          if teacherSocketId p \<noteq> Some sock then (s, [])
          else endQuestion s a Teacher_end now)"

definition on_removeStudent :: "state \<Rightarrow> sid \<Rightarrow> pid option \<Rightarrow> sid \<Rightarrow> state \<times> effect list" where
  "on_removeStudent s sock pollId studentId =
     (case polls_get s pollId of
        None \<Rightarrow> (s, [])
      | Some (a, p) \<Rightarrow>
          if teacherSocketId p \<noteq> Some sock then (s, [])
          else if has studentId (students p) then
            (let kicked = (if studentId \<in> set (sockets s)
                           then [Emit (ToSocket studentId) ''student:kicked'' JNull,
                                 Leave studentId (p_id p)]
                           else []);
                 p1 = p\<lparr>students := AList.delete studentId (students p)\<rparr>
             in (heap_set s a p1,
                 kicked @ [Emit (ToRoom (p_id p1)) ''roster:update'' (roster p1)]))
          else (s, []))"

definition on_chat_send ::
  "state \<Rightarrow> sid \<Rightarrow> pid option \<Rightarrow> string \<Rightarrow> string \<Rightarrow> string \<Rightarrow> uid \<Rightarrow> int \<Rightarrow>
   state \<times> effect list" where
  "on_chat_send s sock pollId from message role uuid now =
     (case lookup_poll s sock pollId of
        None \<Rightarrow> (s, [])
      | Some (a, p) \<Rightarrow>
          (s, [Emit (ToRoom (p_id p)) ''chat:message''
                 (JObj [(''id'', JStr uuid), (''at'', JNum now),
                        (''from'', JStr (take 40 from)),
                        (''role'', JStr (if role = ''teacher'' then ''teacher'' else ''student'')),
                        (''message'', JStr (take 280 message))])]))"

text \<open>The loop of \<open>disconnect\<close> over the polls of the map, given by their addresses.\<close>

fun disconnect_polls :: "nat list \<Rightarrow> sid \<Rightarrow> state \<times> effect list \<Rightarrow> state \<times> effect list" where
  "disconnect_polls [] sock acc = acc"
| "disconnect_polls (a # as) sock (s, out) =
     (case heap_get s a of
        None \<Rightarrow> disconnect_polls as sock (s, out)
      | Some p \<Rightarrow>
          (let (p1, out1) =
                 (if has sock (students p)
                  then (let p' = p\<lparr>students := AList.delete sock (students p)\<rparr>
                        in (p', [Emit (ToRoom (p_id p')) ''roster:update'' (roster p')]))
                  else (p, []));
               (p2, s1) =
                 (if teacherSocketId p1 = Some sock
                  then (p1\<lparr>teacherSocketId := None\<rparr>,
                        if activePollId s = Some (p_id p1) then s\<lparr>activePollId := None\<rparr>
                        else s)
                  else (p1, s))
           in disconnect_polls as sock (heap_set s1 a p2, out @ out1)))"

definition on_disconnect :: "state \<Rightarrow> sid \<Rightarrow> state \<times> effect list" where
  "on_disconnect s sock =
     (let s0 = s\<lparr>sockets := removeAll sock (sockets s)\<rparr>;
          (s1, out) = disconnect_polls (map snd (polls s0)) sock (s0, [])
      in (s1\<lparr>waitingStudents := AList.delete sock (waitingStudents s1)\<rparr>, out))"

text \<open>
  The callback of \<open>setTimeout\<close>: \<open>endQuestion(io, poll, 'timeout')\<close> on the poll the
  closure holds. A handle that is not armed (never set, fired, or cleared) does not fire.
\<close>

definition on_timeout :: "state \<Rightarrow> nat \<Rightarrow> int \<Rightarrow> state \<times> effect list" where
  "on_timeout s h now =
     (case map_of (timers s) h of
        None \<Rightarrow> (s, [])
      | Some a \<Rightarrow> endQuestion (s\<lparr>timers := AList.delete h (timers s)\<rparr>) a Timeout now)"

section \<open>The server as a transition system\<close>

datatype event =
    Connect sid
  | ApiCreatePoll uid
  | TeacherInit sid "pid option" uid
  | StudentInit sid "pid option" string
  | AskQuestion sid "pid option" string "string list" "int option" uid "nat \<Rightarrow> uid" int
  | Submit sid "pid option" uid uid int
  | EndQuestion sid "pid option" int
  | RemoveStudent sid "pid option" sid
  | ChatSend sid "pid option" string string string uid int
  | Disconnect sid
  | TimerFires nat int

fun step :: "state \<Rightarrow> event \<Rightarrow> state \<times> effect list" where
  "step s (Connect sock) = (s\<lparr>sockets := List.insert sock (sockets s)\<rparr>, [])"
| "step s (ApiCreatePoll uuid) = (fst (createPoll s uuid), [])"
| "step s (TeacherInit sock pollId uuid) = on_teacher_init s sock pollId uuid"
| "step s (StudentInit sock pollId name) = on_student_init s sock pollId name"
| "step s (AskQuestion sock pollId text options durationSec uuid uuids now) =
     on_askQuestion s sock pollId text options durationSec uuid uuids now"
| "step s (Submit sock pollId questionId optionId now) =
     on_submit s sock pollId questionId optionId now"
| "step s (EndQuestion sock pollId now) = on_endQuestion s sock pollId now"
| "step s (RemoveStudent sock pollId studentId) = on_removeStudent s sock pollId studentId"
| "step s (ChatSend sock pollId from message role uuid now) =
     on_chat_send s sock pollId from message role uuid now"
| "step s (Disconnect sock) = on_disconnect s sock"
| "step s (TimerFires h now) = on_timeout s h now"

text \<open>The state after a sequence of events, handled one at a time, from a given state.\<close>

fun run :: "state \<Rightarrow> event list \<Rightarrow> state" where
  "run s [] = s"
| "run s (e # es) = run (fst (step s e)) es"

section \<open>Properties of the state\<close>

text \<open>
  What every current question satisfies between two handlers: it is active, its total
  is the size of \<open>answeredBy\<close>, which has no repetition, and the counts of its options
  add up to the total.
\<close>

definition question_ok :: "question \<Rightarrow> bool" where
  "question_ok q =
     (q_status q = Active \<and> q_totalAnswers q = length (q_answeredBy q) \<and>
      distinct (q_answeredBy q) \<and>
      sum_list (map opt_count (q_options q)) = q_totalAnswers q)"

definition poll_ok :: "poll \<Rightarrow> bool" where
  "poll_ok p = (case currentQuestion p of None \<Rightarrow> True | Some q \<Rightarrow> question_ok q)"

definition heap_ok :: "state \<Rightarrow> bool" where
  "heap_ok s = list_all poll_ok (heap s)"

text \<open>The current question of the poll object at an address, if there is one.\<close>

definition current_of :: "state \<Rightarrow> nat \<Rightarrow> question option" where
  "current_of s a = (case heap_get s a of None \<Rightarrow> None | Some p \<Rightarrow> currentQuestion p)"

text \<open>
  Timer handles are handed out in increasing order. The handle a current question
  refers to was handed out before; a handle is dead when it was handed out and is not
  armed.
\<close>

definition ref_ok :: "nat \<Rightarrow> poll \<Rightarrow> bool" where
  "ref_ok n p =
     (case currentQuestion p of None \<Rightarrow> True
      | Some q \<Rightarrow> (case q_timerRef q of None \<Rightarrow> True | Some h \<Rightarrow> h < n))"

definition refs_ok :: "state \<Rightarrow> bool" where
  "refs_ok s = list_all (ref_ok (nextTimer s)) (heap s)"

definition timer_dead :: "nat \<Rightarrow> state \<Rightarrow> bool" where
  "timer_dead h s = (h < nextTimer s \<and> map_of (timers s) h = None)"

text \<open>
  A \<open>student:submit\<close> is accepted when it passes every early return of the handler:
  a poll is found, it has a current question with the id given, the question is active,
  the socket has not answered it, and the option id is one of the question's.
\<close>

definition submit_accepted :: "state \<Rightarrow> sid \<Rightarrow> pid option \<Rightarrow> uid \<Rightarrow> uid \<Rightarrow> bool" where
  "submit_accepted s sock pollId questionId optionId =
     (case lookup_poll s sock pollId of
        None \<Rightarrow> False
      | Some (a, p) \<Rightarrow>
          (case currentQuestion p of
             None \<Rightarrow> False
           | Some q \<Rightarrow>
               q_id q = questionId \<and> q_status q = Active \<and> sock \<notin> set (q_answeredBy q) \<and>
               optionId \<in> opt_id ` set (q_options q)))"

section \<open>A session used as concrete input\<close>

text \<open>
  A teacher opens a poll, Ann and Bo join, the teacher asks a question with two options
  and ten seconds, Ann answers, Bo's connection drops, and the teacher asks again.
\<close>

definition gen :: "nat \<Rightarrow> uid" where
  "gen i = (if i = 0 then ''o1'' else if i = 1 then ''o2''
            else if i = 2 then ''o3'' else ''o4'')"

definition evs_joined :: "event list" where
  "evs_joined =
     [Connect ''t'', Connect ''a'', Connect ''b'',
      TeacherInit ''t'' None ''poll01xyz'',
      StudentInit ''a'' None ''Ann'', StudentInit ''b'' None ''Bo'']"

definition evs_asked :: "event list" where
  "evs_asked =
     evs_joined @
     [AskQuestion ''t'' (Some ''poll01'') ''2+2?'' [''3'', ''4''] (Some 10) ''q1'' gen 1000]"

definition evs_answered :: "event list" where
  "evs_answered = evs_asked @ [Submit ''a'' (Some ''poll01'') ''q1'' ''o2'' 1001]"

definition evs_shrunk :: "event list" where
  "evs_shrunk = evs_answered @ [Disconnect ''b'']"

definition evs_replaced :: "event list" where
  "evs_replaced =
     evs_shrunk @ [AskQuestion ''t'' (Some ''poll01'') ''next'' [] None ''q2'' gen 1002]"

text \<open>
  After Ann's answer the teacher's connection drops; Cy then finds no poll with a
  teacher and waits, until a teacher attaches to the poll again.
\<close>

definition evs_waiting :: "event list" where
  "evs_waiting =
     evs_answered @
     [Disconnect ''t'', Connect ''c'', StudentInit ''c'' None ''Cy'', Connect ''t2'']"

definition q1_asked :: question where
  "q1_asked =
     \<lparr>q_id = ''q1'', q_text = ''2+2?'',
      q_options = [\<lparr>opt_id = ''o1'', opt_text = ''3'', opt_count = 0\<rparr>,
                   \<lparr>opt_id = ''o2'', opt_text = ''4'', opt_count = 0\<rparr>],
      q_askedAt = 1000, q_durationSec = 10, q_totalAnswers = 0, q_status = Active,
      q_answeredBy = [], q_timerRef = Some 0\<rparr>"

definition q1_answered :: question where
  "q1_answered =
     \<lparr>q_id = ''q1'', q_text = ''2+2?'',
      q_options = [\<lparr>opt_id = ''o1'', opt_text = ''3'', opt_count = 0\<rparr>,
                   \<lparr>opt_id = ''o2'', opt_text = ''4'', opt_count = 1\<rparr>],
      q_askedAt = 1000, q_durationSec = 10, q_totalAnswers = 1, q_status = Active,
      q_answeredBy = [''a''], q_timerRef = Some 0\<rparr>"

definition poll_joined :: poll where
  "poll_joined =
     \<lparr>p_id = ''poll01'', teacherSocketId = Some ''t'',
      students = [(''a'', \<lparr>s_id = ''a'', s_name = ''Ann''\<rparr>),
                  (''b'', \<lparr>s_id = ''b'', s_name = ''Bo''\<rparr>)],
      currentQuestion = None, pastQuestions = []\<rparr>"

definition poll_asked :: poll where
  "poll_asked = poll_joined\<lparr>currentQuestion := Some q1_asked\<rparr>"

definition poll_answered :: poll where
  "poll_answered = poll_joined\<lparr>currentQuestion := Some q1_answered\<rparr>"

definition poll_leaderless :: poll where
  "poll_leaderless = poll_answered\<lparr>teacherSocketId := None\<rparr>"

definition poll_shrunk :: poll where
  "poll_shrunk =
     poll_answered\<lparr>students := [(''a'', \<lparr>s_id = ''a'', s_name = ''Ann''\<rparr>)]\<rparr>"

section \<open>Lookups return objects of the store\<close>

lemma heap_ok_set: "heap_ok s \<Longrightarrow> poll_ok p \<Longrightarrow> heap_ok (heap_set s a p)"
  by (auto simp: heap_ok_def heap_set_def list_all_iff dest!: set_update_subset_insert[THEN subsetD])

lemma heap_get_ok: "heap_ok s \<Longrightarrow> heap_get s a = Some p \<Longrightarrow> poll_ok p"
  by (auto simp: heap_ok_def heap_get_def list_all_iff split: if_splits)

lemma poll_ok_same: "currentQuestion p' = currentQuestion p \<Longrightarrow> poll_ok p \<Longrightarrow> poll_ok p'"
  by (simp add: poll_ok_def)

lemma polls_get_heap: "polls_get s i = Some (a, p) \<Longrightarrow> heap_get s a = Some p"
  by (auto simp: polls_get_def split: option.splits)

lemma polls_values_heap: "(a, p) \<in> set (polls_values s) \<Longrightarrow> heap_get s a = Some p"
proof -
  have "(a, p) \<in> set (List.map_filter (\<lambda>(i, a). map_option (Pair a) (heap_get s a)) xs)
        \<Longrightarrow> heap_get s a = Some p" for xs
    by (induction xs) (auto split: option.splits)
  then show "(a, p) \<in> set (polls_values s) \<Longrightarrow> heap_get s a = Some p"
    by (simp add: polls_values_def)
qed

lemma fold_latest:
  "fold (\<lambda>(a, p) latest. if truthy (teacherSocketId p) then Some (a, p) else latest) xs acc = Some r
   \<Longrightarrow> acc = Some r \<or> r \<in> set xs"
  by (induction xs arbitrary: acc) (fastforce split: if_splits)+

lemma getLatest_heap: "getLatestActivePoll s = Some (a, p) \<Longrightarrow> heap_get s a = Some p"
  using fold_latest[of "polls_values s" None "(a, p)"]
  by (auto simp: getLatestActivePoll_def polls_values_heap)

lemma findPoll_heap: "findPollByStudentSocket s sock = Some (a, p) \<Longrightarrow> heap_get s a = Some p"
  by (auto simp: findPollByStudentSocket_def find_Some_iff intro!: polls_values_heap)
     (metis nth_mem)

lemma lookup_poll_heap: "lookup_poll s sock i = Some (a, p) \<Longrightarrow> heap_get s a = Some p"
  by (auto simp: lookup_poll_def polls_get_heap findPoll_heap split: if_splits)

lemma endQuestion_ok: "heap_ok s \<Longrightarrow> heap_ok (fst (endQuestion s a rs now))"
proof -
  assume ok: "heap_ok s"
  have t: "\<And>ts. heap_ok (s\<lparr>timers := ts\<rparr>)" using ok by (simp add: heap_ok_def)
  show ?thesis
    by (auto simp: endQuestion_def Let_def ok poll_ok_def intro!: heap_ok_set t
             split: option.splits)
qed


lemma heap_ok_upd [simp]:
  "heap_ok (s\<lparr>timers := ts\<rparr>) = heap_ok s"
  "heap_ok (s\<lparr>nextTimer := n\<rparr>) = heap_ok s"
  "heap_ok (s\<lparr>waitingStudents := w\<rparr>) = heap_ok s"
  "heap_ok (s\<lparr>activePollId := ap\<rparr>) = heap_ok s"
  "heap_ok (s\<lparr>sockets := so\<rparr>) = heap_ok s"
  "heap_ok (s\<lparr>polls := ps\<rparr>) = heap_ok s"
  by (simp_all add: heap_ok_def)

lemma heap_get_upd [simp]:
  "heap_get (s\<lparr>timers := ts\<rparr>) a = heap_get s a"
  "heap_get (s\<lparr>nextTimer := n\<rparr>) a = heap_get s a"
  "heap_get (s\<lparr>waitingStudents := w\<rparr>) a = heap_get s a"
  "heap_get (s\<lparr>activePollId := ap\<rparr>) a = heap_get s a"
  "heap_get (s\<lparr>sockets := so\<rparr>) a = heap_get s a"
  "heap_get (s\<lparr>polls := ps\<rparr>) a = heap_get s a"
  by (simp_all add: heap_get_def)

lemma createPoll_ok: "heap_ok s \<Longrightarrow> heap_ok (fst (createPoll s u))"
  by (simp add: createPoll_def Let_def heap_ok_def poll_ok_def)

lemma createPoll_get:
  "createPoll s u = (s1, a, p) \<Longrightarrow> heap_get s1 a = Some p \<and> currentQuestion p = None"
  by (auto simp: createPoll_def Let_def heap_get_def)

lemma attach_waiting_cq:
  "attach_waiting es live (w, p, out) = (w', p', out') \<Longrightarrow> currentQuestion p' = currentQuestion p"
  by (induction es live "(w, p, out)" arbitrary: w p out rule: attach_waiting.induct)
     (auto simp: Let_def split: if_splits)

lemma on_teacher_init_ok: "heap_ok s \<Longrightarrow> heap_ok (fst (on_teacher_init s sock i u))"
proof -
  assume ok: "heap_ok s"
  obtain s1 a p where sel:
    "(case (if truthy i then polls_get s i else None) of
        Some (a, p) \<Rightarrow> (s, a, p) | None \<Rightarrow> createPoll s u) = (s1, a, p)"
    by (metis prod_cases3)
  have s1: "heap_ok s1 \<and> poll_ok p"
    using sel ok createPoll_ok[of s u] createPoll_get[of s u s1 a p]
    by (auto simp: poll_ok_def split: option.splits if_splits
             dest: polls_get_heap heap_get_ok)
  obtain w p2 out2 where aw:
    "attach_waiting (waitingStudents s1) (sockets s1)
       (waitingStudents s1, p\<lparr>teacherSocketId := Some sock\<rparr>,
        [Join sock (p_id p), Emit (ToSocket sock) ''teacher:ready''
           (teacher_ready (p\<lparr>teacherSocketId := Some sock\<rparr>))]) = (w, p2, out2)"
    by (metis prod_cases3)
  have "poll_ok p2"
    using attach_waiting_cq[OF aw] s1 by (simp add: poll_ok_def)
  then show ?thesis
    using sel aw s1 by (simp add: on_teacher_init_def Let_def heap_ok_set)
qed

lemma heap_ok_modify:
  "heap_ok s \<Longrightarrow> heap_get s a = Some p \<Longrightarrow> currentQuestion p' = currentQuestion p \<Longrightarrow>
   heap_ok (heap_set s a p')"
  using heap_get_ok[of s a p] heap_ok_set[of s p' a] by (simp add: poll_ok_def)

lemma student_poll_heap: "student_poll s i = Some (a, p) \<Longrightarrow> heap_get s a = Some p"
  by (auto simp: student_poll_def polls_get_heap getLatest_heap split: if_splits)

lemma on_student_init_ok: "heap_ok s \<Longrightarrow> heap_ok (fst (on_student_init s sock i n))"
proof (cases "student_poll s i")
  case None
  assume "heap_ok s"
  then show ?thesis using None by (simp add: on_student_init_def)
next
  case (Some r)
  assume ok: "heap_ok s"
  obtain a p where r: "r = (a, p)" by (cases r)
  have "heap_get s a = Some p" using Some r student_poll_heap by simp
  then show ?thesis
    using Some r ok by (simp add: on_student_init_def Let_def heap_ok_modify)
qed

lemma sum_normalize: "sum_list (map opt_count (normalize_options os us)) = 0"
  by (simp add: normalize_options_def comp_def case_prod_unfold)

lemma on_askQuestion_ok:
  "heap_ok s \<Longrightarrow> heap_ok (fst (on_askQuestion s sock i t os d u us now))"
  by (auto simp: on_askQuestion_def Let_def poll_ok_def question_ok_def sum_normalize
           intro!: heap_ok_set split: option.splits)

lemma sum_bump:
  "find (\<lambda>x. opt_id x = oid) os = Some y \<Longrightarrow>
   sum_list (map opt_count (bump_option oid os)) = Suc (sum_list (map opt_count os))"
  by (induction os) (auto split: if_splits)

lemma record_answer_ok:
  "question_ok q \<Longrightarrow> sock \<notin> set (q_answeredBy q) \<Longrightarrow>
   find (\<lambda>x. opt_id x = oid) (q_options q) = Some y \<Longrightarrow> question_ok (record_answer q sock oid)"
  by (simp add: question_ok_def record_answer_def set_add_def sum_bump)

lemma on_submit_ok: "heap_ok s \<Longrightarrow> heap_ok (fst (on_submit s sock i qi oi now))"
proof -
  assume ok: "heap_ok s"
  have q: "question_ok q"
    if "lookup_poll s sock i = Some (a, p)" "currentQuestion p = Some q" for a p q
    using that ok lookup_poll_heap[of s sock i a p] heap_get_ok[of s a p]
    by (simp add: poll_ok_def)
  show ?thesis
    using ok
    by (auto simp: on_submit_def Let_def poll_ok_def record_answer_ok case_prod_unfold
             intro!: heap_ok_set endQuestion_ok dest: q
             split: option.splits if_splits)
qed

lemma on_endQuestion_ok: "heap_ok s \<Longrightarrow> heap_ok (fst (on_endQuestion s sock i now))"
  by (auto simp: on_endQuestion_def endQuestion_ok split: option.splits)

lemma on_removeStudent_ok: "heap_ok s \<Longrightarrow> heap_ok (fst (on_removeStudent s sock i st))"
proof (cases "polls_get s i")
  case None
  assume "heap_ok s"
  then show ?thesis using None by (simp add: on_removeStudent_def)
next
  case (Some r)
  assume ok: "heap_ok s"
  obtain a p where r: "r = (a, p)" by (cases r)
  have "heap_get s a = Some p" using Some r polls_get_heap by simp
  then show ?thesis
    using Some r ok by (simp add: on_removeStudent_def Let_def heap_ok_modify)
qed

lemma on_chat_send_ok: "heap_ok s \<Longrightarrow> heap_ok (fst (on_chat_send s sock i f m r u now))"
  by (auto simp: on_chat_send_def split: option.splits)

lemma disconnect_polls_ok:
  "heap_ok s \<Longrightarrow> heap_ok (fst (disconnect_polls as sock (s, out)))"
proof (induction as arbitrary: s out)
  case Nil
  then show ?case by simp
next
  case (Cons a as)
  show ?case
  proof (cases "heap_get s a")
    case None
    then show ?thesis using Cons by simp
  next
    case (Some p)
    then have "poll_ok p" using Cons.prems heap_get_ok by blast
    then show ?thesis
      using Some Cons.prems
      by (auto simp: Let_def poll_ok_def intro!: Cons.IH heap_ok_set)
  qed
qed

lemma on_disconnect_ok: "heap_ok s \<Longrightarrow> heap_ok (fst (on_disconnect s sock))"
  using disconnect_polls_ok[of "s\<lparr>sockets := removeAll sock (sockets s)\<rparr>" "map snd (polls s)" sock "[]"]
  by (simp add: on_disconnect_def Let_def case_prod_unfold)

lemma on_timeout_ok: "heap_ok s \<Longrightarrow> heap_ok (fst (on_timeout s h now))"
  by (auto simp: on_timeout_def endQuestion_ok split: option.splits)

lemma step_ok: "heap_ok s \<Longrightarrow> heap_ok (fst (step s e))"
  by (cases e)
     (simp_all add: createPoll_ok on_teacher_init_ok on_student_init_ok on_askQuestion_ok
        on_submit_ok on_endQuestion_ok on_removeStudent_ok on_chat_send_ok on_disconnect_ok
        on_timeout_ok)

lemma run_ok: "heap_ok s \<Longrightarrow> heap_ok (run s es)"
  by (induction es arbitrary: s) (simp_all add: step_ok)

lemma init_ok: "heap_ok init"
  by (simp add: init_def heap_ok_def)

section \<open>One question at a time\<close>

lemma endQuestion_clears: "current_of (fst (endQuestion s a rs now)) a = None"
  by (auto simp: endQuestion_def current_of_def Let_def heap_get_def heap_set_def
           split: option.splits if_splits)

text \<open>
  C3. In every state the server reaches from its start, a poll's \<open>currentQuestion\<close>, when
  there is one, has status \<open>active\<close>. \<open>endQuestion\<close> leaves the poll without a current
  question, whatever the reason, and an accepted \<open>teacher:askQuestion\<close> installs the new
  question with status \<open>active\<close>.
\<close>

theorem current_question_active:
  "(current_of (run init es) a = Some q \<longrightarrow> q_status q = Active)
   \<and> current_of (fst (endQuestion s0 b rs t)) b = None
   \<and> (polls_get s pollId = Some (c, r) \<longrightarrow> teacherSocketId r = Some sock \<longrightarrow>
        canAskNewQuestion r \<longrightarrow>
        map_option q_id
          (current_of (fst (on_askQuestion s sock pollId text options d uuid uuids now)) c)
          = Some uuid \<and>
        map_option q_status
          (current_of (fst (on_askQuestion s sock pollId text options d uuid uuids now)) c)
          = Some Active)"
proof (intro conjI impI)
  assume cur: "current_of (run init es) a = Some q"
  then obtain p where p: "heap_get (run init es) a = Some p" "currentQuestion p = Some q"
    by (auto simp: current_of_def split: option.splits)
  have "heap_ok (run init es)" by (simp add: run_ok init_ok)
  then have "question_ok q"
    using p heap_get_ok[of "run init es" a p] by (simp add: poll_ok_def)
  then show "q_status q = Active" by (simp add: question_ok_def)
next
  show "current_of (fst (endQuestion s0 b rs t)) b = None" by (rule endQuestion_clears)
next
  assume g: "polls_get s pollId = Some (c, r)" and t: "teacherSocketId r = Some sock"
    and can: "canAskNewQuestion r"
  have c: "c < length (heap s)"
    using polls_get_heap[OF g] by (simp add: heap_get_def split: if_splits)
  show "map_option q_id
          (current_of (fst (on_askQuestion s sock pollId text options d uuid uuids now)) c)
          = Some uuid"
    using g t can c
    by (simp add: on_askQuestion_def Let_def current_of_def heap_get_def heap_set_def)
  show "map_option q_status
          (current_of (fst (on_askQuestion s sock pollId text options d uuid uuids now)) c)
          = Some Active"
    using g t can c
    by (simp add: on_askQuestion_def Let_def current_of_def heap_get_def heap_set_def)
qed

theorem current_question_active_witness:
  "current_of (run init evs_answered) 0 = Some q1_answered \<and> q_status q1_answered = Active
   \<and> current_of (fst (endQuestion (run init evs_answered) 0 Teacher_end 1002)) 0 = None
   \<and> polls_get (run init evs_joined) (Some ''poll01'') = Some (0, poll_joined)
   \<and> teacherSocketId poll_joined = Some ''t'' \<and> canAskNewQuestion poll_joined
   \<and> map_option q_status
        (current_of (fst (on_askQuestion (run init evs_joined) ''t'' (Some ''poll01'')
                            ''2+2?'' [''3'', ''4''] (Some 10) ''q1'' gen 1000)) 0)
      = Some Active"
proof -
  have h1: "current_of (run init evs_answered) 0 = Some q1_answered" by code_simp
  have h2: "polls_get (run init evs_joined) (Some ''poll01'') = Some (0, poll_joined)"
    by code_simp
  have h3: "teacherSocketId poll_joined = Some ''t''" by code_simp
  have h4: "canAskNewQuestion poll_joined" by code_simp
  show ?thesis
    using h1 h2 h3 h4
      current_question_active[of evs_answered 0 q1_answered "run init evs_answered" 0
        Teacher_end 1002 "run init evs_joined" "Some ''poll01''" 0 poll_joined "''t''"
        "''2+2?''" "[''3'', ''4'']" "Some 10" "''q1''" gen 1000]
    by simp
qed

section \<open>Answers are counted once\<close>

text \<open>
  C4. In every state the server reaches, the total of a current question is the number
  of distinct sockets in \<open>answeredBy\<close>, and the counts of the options add up to the
  total. A submit from a socket that is already in \<open>answeredBy\<close> of the question changes
  nothing and emits nothing.
\<close>

theorem answers_counted_once:
  "(current_of (run init es) a = Some q \<longrightarrow>
      q_totalAnswers q = length (q_answeredBy q) \<and> distinct (q_answeredBy q) \<and>
      q_totalAnswers q = card (set (q_answeredBy q)) \<and>
      sum_list (map opt_count (q_options q)) = q_totalAnswers q)
   \<and> (lookup_poll s sock pollId = Some (b, p) \<longrightarrow> currentQuestion p = Some q' \<longrightarrow>
        sock \<in> set (q_answeredBy q') \<longrightarrow>
        on_submit s sock pollId questionId optionId now = (s, []))"
proof (intro conjI impI)
  assume cur: "current_of (run init es) a = Some q"
  then obtain p where p: "heap_get (run init es) a = Some p" "currentQuestion p = Some q"
    by (auto simp: current_of_def split: option.splits)
  have "heap_ok (run init es)" by (simp add: run_ok init_ok)
  then have ok: "question_ok q"
    using p heap_get_ok[of "run init es" a p] by (simp add: poll_ok_def)
  show "q_totalAnswers q = length (q_answeredBy q)" using ok by (simp add: question_ok_def)
  show "distinct (q_answeredBy q)" using ok by (simp add: question_ok_def)
  show "q_totalAnswers q = card (set (q_answeredBy q))"
    using ok by (simp add: question_ok_def distinct_card)
  show "sum_list (map opt_count (q_options q)) = q_totalAnswers q"
    using ok by (simp add: question_ok_def)
next
  assume "lookup_poll s sock pollId = Some (b, p)" and "currentQuestion p = Some q'"
    and "sock \<in> set (q_answeredBy q')"
  then show "on_submit s sock pollId questionId optionId now = (s, [])"
    by (simp add: on_submit_def)
qed

theorem answers_counted_once_witness:
  "current_of (run init evs_answered) 0 = Some q1_answered
   \<and> q_totalAnswers q1_answered = card (set (q_answeredBy q1_answered))
   \<and> sum_list (map opt_count (q_options q1_answered)) = q_totalAnswers q1_answered
   \<and> lookup_poll (run init evs_answered) ''a'' (Some ''poll01'') = Some (0, poll_answered)
   \<and> currentQuestion poll_answered = Some q1_answered
   \<and> ''a'' \<in> set (q_answeredBy q1_answered)
   \<and> on_submit (run init evs_answered) ''a'' (Some ''poll01'') ''q1'' ''o1'' 1002
       = (run init evs_answered, [])"
proof -
  have h1: "current_of (run init evs_answered) 0 = Some q1_answered" by code_simp
  have h2: "lookup_poll (run init evs_answered) ''a'' (Some ''poll01'') = Some (0, poll_answered)"
    by code_simp
  have h3: "currentQuestion poll_answered = Some q1_answered" by code_simp
  have h4: "''a'' \<in> set (q_answeredBy q1_answered)" by code_simp
  show ?thesis
    using h1 h2 h3 h4
      answers_counted_once[where es = evs_answered and a = 0 and q = q1_answered
        and s = "run init evs_answered" and sock = "''a''" and pollId = "Some ''poll01''"
        and b = 0 and p = poll_answered and q' = q1_answered and questionId = "''q1''"
        and optionId = "''o1''" and now = 1002]
    by simp
qed

section \<open>Submitting an answer\<close>

lemma result_of_status [simp]: "result_of (q\<lparr>q_status := st\<rparr>) = result_of q"
  by (simp add: result_of_def)

lemma map_of_delete_same [simp]: "map_of (AList.delete k xs) k = None"
  by (simp add: AList.delete_conv')

lemma endQuestion_current:
  "heap_get s a = Some p \<Longrightarrow> currentQuestion p = Some q \<Longrightarrow>
   endQuestion s a rs now =
     (heap_set (s\<lparr>timers := clearTimeout (q_timerRef q) (timers s)\<rparr>) a
        (p\<lparr>pastQuestions := past_of (result_of q) now rs # pastQuestions p,
           currentQuestion := None\<rparr>),
      [Emit (ToRoom (p_id p)) ''questionFinished'' (enc_result (result_of q))])"
  by (simp add: endQuestion_def Let_def)

lemma heap_get_set_same:
  "heap_get s a = Some p \<Longrightarrow> heap_get (heap_set s a p') a = Some p'"
  by (simp add: heap_get_def heap_set_def split: if_splits)

lemma heap_set_set [simp]: "heap_set (heap_set s a p) a p' = heap_set s a p'"
  by (simp add: heap_set_def)

lemma heap_set_timers [simp]:
  "heap_set (s\<lparr>timers := ts\<rparr>) a p = (heap_set s a p)\<lparr>timers := ts\<rparr>"
  by (simp add: heap_set_def)

lemma timers_heap_set [simp]: "timers (heap_set s a p) = timers s"
  by (simp add: heap_set_def)

lemma find_option_None:
  "(find (\<lambda>x. opt_id x = oid) os = None) = (oid \<notin> opt_id ` set os)"
  by (auto simp: find_None_iff)

lemma find_option_Some:
  "oid \<in> opt_id ` set os \<Longrightarrow> \<exists>y. find (\<lambda>x. opt_id x = oid) os = Some y"
  using find_option_None[of oid os] by (cases "find (\<lambda>x. opt_id x = oid) os") auto

lemma on_submit_accepted:
  assumes "lookup_poll s sock pollId = Some (a, p)"
    and "currentQuestion p = Some q"
    and "q_id q = questionId" and "q_status q = Active"
    and "sock \<notin> set (q_answeredBy q)"
    and "find (\<lambda>x. opt_id x = optionId) (q_options q) = Some x"
  shows "on_submit s sock pollId questionId optionId now =
     (if q_totalAnswers q + 1 \<ge> length (students p) \<and> length (students p) > 0
      then ((heap_set s a
               (p\<lparr>pastQuestions :=
                     past_of (result_of (record_answer q sock optionId)) now All_answered
                     # pastQuestions p,
                   currentQuestion := None\<rparr>))
              \<lparr>timers := clearTimeout (q_timerRef q) (timers s)\<rparr>,
            [Emit (ToRoom (p_id p)) ''results:update''
               (results_update p (record_answer q sock optionId)),
             Emit (ToRoom (p_id p)) ''questionFinished''
               (enc_result (result_of (record_answer q sock optionId)))])
      else (heap_set s a (p\<lparr>currentQuestion := Some (record_answer q sock optionId)\<rparr>),
            [Emit (ToRoom (p_id p)) ''results:update''
               (results_update p (record_answer q sock optionId))]))"
proof -
  let ?q1 = "record_answer q sock optionId"
  let ?p1 = "p\<lparr>currentQuestion := Some ?q1\<rparr>"
  have hp: "heap_get s a = Some p" using assms(1) by (rule lookup_poll_heap)
  have tot: "q_totalAnswers ?q1 = q_totalAnswers q + 1" and tr: "q_timerRef ?q1 = q_timerRef q"
    by (simp_all add: record_answer_def)
  have hp1: "heap_get (heap_set s a ?p1) a = Some ?p1" using hp by (rule heap_get_set_same)
  have e: "endQuestion (heap_set s a ?p1) a All_answered now =
     (heap_set ((heap_set s a ?p1)\<lparr>timers := clearTimeout (q_timerRef ?q1) (timers (heap_set s a ?p1))\<rparr>) a
        (?p1\<lparr>pastQuestions := past_of (result_of ?q1) now All_answered # pastQuestions ?p1,
           currentQuestion := None\<rparr>),
      [Emit (ToRoom (p_id ?p1)) ''questionFinished'' (enc_result (result_of ?q1))])"
    using hp1 by (rule endQuestion_current) simp
  show ?thesis
    using assms e tot tr
    by (simp add: on_submit_def Let_def results_update_def)
qed

lemma sum_bump_in:
  "oid \<in> opt_id ` set os \<Longrightarrow>
   sum_list (map opt_count (bump_option oid os)) = sum_list (map opt_count os) + 1"
  using find_option_Some[of oid os] sum_bump[of oid os] by auto

lemma enc_opt_fun:
  "enc_opt = (\<lambda>x. JObj [(''id'', JStr (opt_id x)), (''text'', JStr (opt_text x)),
                          (''count'', JNum (int (opt_count x)))])"
  by (rule ext) (simp add: enc_opt_def)

lemma bump_option_ids:
  "map opt_id (bump_option oid os) = map opt_id os \<and>
   map opt_text (bump_option oid os) = map opt_text os"
  by (induction os) auto

text \<open>
  C5. When an accepted submit brings the total to the size of the roster or more, and
  the roster is not empty, the same call finishes the question with reason
  \<open>all_answered\<close>: \<open>results:update\<close> and then \<open>questionFinished\<close> go to the room with the
  counts after this answer, the result with \<open>finishedAt\<close> and reason \<open>all_answered\<close> is put
  in front of the history, the poll has no current question, and the timer of the
  question is no longer armed. The answer raises one count by one and leaves ids and
  texts of the options as they were.
\<close>

theorem submit_finishes_when_all_answered:
  assumes "lookup_poll s sock pollId = Some (a, p)"
    and "currentQuestion p = Some q"
    and "q_id q = questionId" and "q_status q = Active"
    and "sock \<notin> set (q_answeredBy q)"
    and "find (\<lambda>x. opt_id x = optionId) (q_options q) = Some x"
    and "q_totalAnswers q + 1 \<ge> length (students p)" and "length (students p) > 0"
  shows "snd (on_submit s sock pollId questionId optionId now) =
           [Emit (ToRoom (p_id p)) ''results:update''
              (JObj [(''questionId'', JStr (q_id q)),
                     (''options'',
                      JArr (map (\<lambda>x. JObj [(''id'', JStr (opt_id x)),
                                             (''text'', JStr (opt_text x)),
                                             (''count'', JNum (int (opt_count x)))])
                                (bump_option optionId (q_options q)))),
                     (''totalAnswers'', JNum (int (q_totalAnswers q) + 1)),
                     (''studentsTotal'', JNum (int (length (students p))))]),
            Emit (ToRoom (p_id p)) ''questionFinished''
              (JObj [(''questionId'', JStr (q_id q)), (''text'', JStr (q_text q)),
                     (''options'',
                      JArr (map (\<lambda>x. JObj [(''id'', JStr (opt_id x)),
                                             (''text'', JStr (opt_text x)),
                                             (''count'', JNum (int (opt_count x)))])
                                (bump_option optionId (q_options q)))),
                     (''totalAnswers'', JNum (int (q_totalAnswers q) + 1)),
                     (''durationSec'', JNum (q_durationSec q))])]
         \<and> heap_get (fst (on_submit s sock pollId questionId optionId now)) a =
             Some (p\<lparr>pastQuestions :=
                        \<lparr>h_questionId = q_id q, h_text = q_text q,
                         h_options = bump_option optionId (q_options q),
                         h_totalAnswers = q_totalAnswers q + 1,
                         h_durationSec = q_durationSec q,
                         h_finishedAt = now, h_reason = All_answered\<rparr>
                        # pastQuestions p,
                      currentQuestion := None\<rparr>)
         \<and> map opt_id (bump_option optionId (q_options q)) = map opt_id (q_options q)
         \<and> map opt_text (bump_option optionId (q_options q)) = map opt_text (q_options q)
         \<and> sum_list (map opt_count (bump_option optionId (q_options q))) =
             sum_list (map opt_count (q_options q)) + 1
         \<and> (\<forall>h. q_timerRef q = Some h \<longrightarrow>
               timers (fst (on_submit s sock pollId questionId optionId now)) =
                 AList.delete h (timers s) \<and>
               map_of (timers (fst (on_submit s sock pollId questionId optionId now))) h = None)"
proof -
  have hp: "heap_get s a = Some p" using assms(1) by (rule lookup_poll_heap)
  have g: "heap_get (heap_set s a p') a = Some p'" for p'
    using hp by (rule heap_get_set_same)
  show ?thesis
    unfolding on_submit_accepted[OF assms(1-6)]
    using assms(7,8) g bump_option_ids[of optionId "q_options q"] sum_bump[OF assms(6)]
    by (auto simp: clearTimeout_def record_answer_def result_of_def past_of_def
                   results_update_def enc_result_def enc_opt_fun)
qed

theorem submit_finishes_when_all_answered_witness:
  "lookup_poll (run init evs_answered) ''b'' (Some ''poll01'') = Some (0, poll_answered)
   \<and> currentQuestion poll_answered = Some q1_answered
   \<and> q_id q1_answered = ''q1'' \<and> q_status q1_answered = Active
   \<and> ''b'' \<notin> set (q_answeredBy q1_answered)
   \<and> find (\<lambda>x. opt_id x = ''o2'') (q_options q1_answered)
       = Some \<lparr>opt_id = ''o2'', opt_text = ''4'', opt_count = 1\<rparr>
   \<and> q_totalAnswers q1_answered + 1 \<ge> length (students poll_answered)
   \<and> length (students poll_answered) > 0
   \<and> q_timerRef q1_answered = Some 0
   \<and> map_of (timers (run init evs_answered)) 0 = Some 0
   \<and> snd (on_submit (run init evs_answered) ''b'' (Some ''poll01'') ''q1'' ''o2'' 1002) =
       [Emit (ToRoom ''poll01'') ''results:update''
          (JObj [(''questionId'', JStr ''q1''),
                 (''options'',
                  JArr [JObj [(''id'', JStr ''o1''), (''text'', JStr ''3''), (''count'', JNum 0)],
                        JObj [(''id'', JStr ''o2''), (''text'', JStr ''4''), (''count'', JNum 2)]]),
                 (''totalAnswers'', JNum 2), (''studentsTotal'', JNum 2)]),
        Emit (ToRoom ''poll01'') ''questionFinished''
          (JObj [(''questionId'', JStr ''q1''), (''text'', JStr ''2+2?''),
                 (''options'',
                  JArr [JObj [(''id'', JStr ''o1''), (''text'', JStr ''3''), (''count'', JNum 0)],
                        JObj [(''id'', JStr ''o2''), (''text'', JStr ''4''), (''count'', JNum 2)]]),
                 (''totalAnswers'', JNum 2), (''durationSec'', JNum 10)])]
   \<and> heap_get (fst (on_submit (run init evs_answered) ''b'' (Some ''poll01'') ''q1'' ''o2'' 1002)) 0
       = Some \<lparr>p_id = ''poll01'', teacherSocketId = Some ''t'',
               students = [(''a'', \<lparr>s_id = ''a'', s_name = ''Ann''\<rparr>),
                           (''b'', \<lparr>s_id = ''b'', s_name = ''Bo''\<rparr>)],
               currentQuestion = None,
               pastQuestions =
                 [\<lparr>h_questionId = ''q1'', h_text = ''2+2?'',
                   h_options = [\<lparr>opt_id = ''o1'', opt_text = ''3'', opt_count = 0\<rparr>,
                                \<lparr>opt_id = ''o2'', opt_text = ''4'', opt_count = 2\<rparr>],
                   h_totalAnswers = 2, h_durationSec = 10, h_finishedAt = 1002,
                   h_reason = All_answered\<rparr>]\<rparr>
   \<and> timers (fst (on_submit (run init evs_answered) ''b'' (Some ''poll01'') ''q1'' ''o2'' 1002)) = []"
proof -
  have h1: "lookup_poll (run init evs_answered) ''b'' (Some ''poll01'') = Some (0, poll_answered)"
    by code_simp
  have h2: "currentQuestion poll_answered = Some q1_answered" by code_simp
  have h3: "q_id q1_answered = ''q1''" by code_simp
  have h4: "q_status q1_answered = Active" by code_simp
  have h5: "''b'' \<notin> set (q_answeredBy q1_answered)" by code_simp
  have h6: "find (\<lambda>x. opt_id x = ''o2'') (q_options q1_answered)
              = Some \<lparr>opt_id = ''o2'', opt_text = ''4'', opt_count = 1\<rparr>" by code_simp
  have h7: "q_totalAnswers q1_answered + 1 \<ge> length (students poll_answered)" by code_simp
  have h8: "length (students poll_answered) > 0" by code_simp
  have h9: "q_timerRef q1_answered = Some 0" by code_simp
  have h10: "timers (run init evs_answered) = [(0, 0)]" by code_simp
  have v: "bump_option ''o2'' (q_options q1_answered) =
             [\<lparr>opt_id = ''o1'', opt_text = ''3'', opt_count = 0\<rparr>,
              \<lparr>opt_id = ''o2'', opt_text = ''4'', opt_count = 2\<rparr>]"
     "p_id poll_answered = ''poll01''" "q_text q1_answered = ''2+2?''"
     "q_totalAnswers q1_answered = 1" "q_durationSec q1_answered = 10"
     "students poll_answered = [(''a'', \<lparr>s_id = ''a'', s_name = ''Ann''\<rparr>),
                           (''b'', \<lparr>s_id = ''b'', s_name = ''Bo''\<rparr>)]"
     "pastQuestions poll_answered = []" "teacherSocketId poll_answered = Some ''t''"
    by code_simp+
  have w: "poll_answered\<lparr>pastQuestions := ps, currentQuestion := None\<rparr> =
       \<lparr>p_id = ''poll01'', teacherSocketId = Some ''t'',
               students = [(''a'', \<lparr>s_id = ''a'', s_name = ''Ann''\<rparr>),
                           (''b'', \<lparr>s_id = ''b'', s_name = ''Bo''\<rparr>)],
               currentQuestion = None, pastQuestions = ps\<rparr>" for ps
    by (simp add: poll_answered_def poll_joined_def)
  show ?thesis
    using h1 h2 h3 h4 h5 h6 h7 h8 h9 h10
      submit_finishes_when_all_answered[OF h1 h2 h3 h4 h5 h6 h7 h8, of 1002]
    by (simp add: v w)
qed

text \<open>
  C7. A submit whose option id is not among the options of the current question returns
  the state as it was and emits nothing. So does every submit that is not accepted; an
  accepted one always emits.
\<close>

theorem rejected_submit_is_silent:
  "(lookup_poll s sock pollId = Some (a, p) \<longrightarrow> currentQuestion p = Some q \<longrightarrow>
      optionId \<notin> opt_id ` set (q_options q) \<longrightarrow>
      on_submit s sock pollId questionId optionId now = (s, []))
   \<and> (\<not> submit_accepted s sock pollId questionId optionId \<longrightarrow>
        on_submit s sock pollId questionId optionId now = (s, []))
   \<and> (submit_accepted s sock pollId questionId optionId \<longrightarrow>
        snd (on_submit s sock pollId questionId optionId now) \<noteq> [])"
proof (intro conjI impI)
  assume "lookup_poll s sock pollId = Some (a, p)" and "currentQuestion p = Some q"
    and "optionId \<notin> opt_id ` set (q_options q)"
  then show "on_submit s sock pollId questionId optionId now = (s, [])"
    using find_option_None[of optionId "q_options q"] by (simp add: on_submit_def)
next
  assume na: "\<not> submit_accepted s sock pollId questionId optionId"
  show "on_submit s sock pollId questionId optionId now = (s, [])"
  proof (cases "lookup_poll s sock pollId")
    case None
    then show ?thesis by (simp add: on_submit_def)
  next
    case (Some r)
    obtain a' p' where r: "r = (a', p')" by (cases r)
    show ?thesis
    proof (cases "currentQuestion p'")
      case None
      then show ?thesis using Some r by (simp add: on_submit_def)
    next
      case (Some q')
      have "q_id q' \<noteq> questionId \<or> q_status q' \<noteq> Active \<or> sock \<in> set (q_answeredBy q')
            \<or> find (\<lambda>x. opt_id x = optionId) (q_options q') = None"
        using na \<open>lookup_poll s sock pollId = Some r\<close> r Some
        by (auto simp: submit_accepted_def find_option_None)
      then show ?thesis
        using \<open>lookup_poll s sock pollId = Some r\<close> r Some
        by (auto simp: on_submit_def)
    qed
  qed
next
  assume "submit_accepted s sock pollId questionId optionId"
  then obtain a' p' q' where acc: "lookup_poll s sock pollId = Some (a', p')"
      "currentQuestion p' = Some q'" "q_id q' = questionId" "q_status q' = Active"
      "sock \<notin> set (q_answeredBy q')" "optionId \<in> opt_id ` set (q_options q')"
    by (auto simp: submit_accepted_def split: option.splits)
  obtain y where "find (\<lambda>x. opt_id x = optionId) (q_options q') = Some y"
    using acc(6) find_option_Some by blast
  then show "snd (on_submit s sock pollId questionId optionId now) \<noteq> []"
    using acc by (simp add: on_submit_def Let_def case_prod_unfold)
qed

theorem rejected_submit_is_silent_witness:
  "lookup_poll (run init evs_answered) ''b'' (Some ''poll01'') = Some (0, poll_answered)
   \<and> currentQuestion poll_answered = Some q1_answered
   \<and> ''stale'' \<notin> opt_id ` set (q_options q1_answered)
   \<and> on_submit (run init evs_answered) ''b'' (Some ''poll01'') ''q1'' ''stale'' 1002
       = (run init evs_answered, [])
   \<and> \<not> submit_accepted (run init evs_answered) ''a'' None ''q1'' ''o1''
   \<and> on_submit (run init evs_answered) ''a'' None ''q1'' ''o1'' 1002
       = (run init evs_answered, [])
   \<and> submit_accepted (run init evs_answered) ''b'' None ''q1'' ''o1''
   \<and> snd (on_submit (run init evs_answered) ''b'' None ''q1'' ''o1'' 1002) \<noteq> []"
proof -
  have h1: "lookup_poll (run init evs_answered) ''b'' (Some ''poll01'') = Some (0, poll_answered)"
    by code_simp
  have h2: "currentQuestion poll_answered = Some q1_answered" by code_simp
  have h3: "''stale'' \<notin> opt_id ` set (q_options q1_answered)" by code_simp
  have h4: "\<not> submit_accepted (run init evs_answered) ''a'' None ''q1'' ''o1''" by code_simp
  have h5: "submit_accepted (run init evs_answered) ''b'' None ''q1'' ''o1''" by code_simp
  show ?thesis
    using h1 h2 h3 h4 h5
      rejected_submit_is_silent[where s = "run init evs_answered" and sock = "''b''"
        and pollId = "Some ''poll01''" and a = 0 and p = poll_answered and q = q1_answered
        and optionId = "''stale''" and questionId = "''q1''" and now = 1002]
      rejected_submit_is_silent[where s = "run init evs_answered" and sock = "''a''"
        and pollId = None and optionId = "''o1''" and questionId = "''q1''" and now = 1002]
      rejected_submit_is_silent[where s = "run init evs_answered" and sock = "''b''"
        and pollId = None and optionId = "''o1''" and questionId = "''q1''" and now = 1002]
    by simp
qed

text \<open>
  C10. Whether the socket is in the roster plays no part in accepting a submit. With the
  poll id, the id of the current active question and one of its option ids, a socket
  that is not in \<open>answeredBy\<close> has its answer counted: the room gets \<open>results:update\<close>
  with the total raised by one, and the poll holds the question with the answer
  recorded, or its result in the history when this answer completed the roster.
\<close>

theorem submit_ignores_roster:
  assumes "truthy pollId" and "polls_get s pollId = Some (a, p)"
    and "currentQuestion p = Some q"
    and "q_id q = questionId" and "q_status q = Active"
    and "sock \<notin> set (q_answeredBy q)"
    and "optionId \<in> opt_id ` set (q_options q)"
  shows "hd (snd (on_submit s sock pollId questionId optionId now)) =
           Emit (ToRoom (p_id p)) ''results:update''
             (results_update p (record_answer q sock optionId))
         \<and> field ''totalAnswers'' (results_update p (record_answer q sock optionId)) =
             Some (JNum (int (q_totalAnswers q) + 1))
         \<and> q_totalAnswers (record_answer q sock optionId) = q_totalAnswers q + 1
         \<and> sum_list (map opt_count (q_options (record_answer q sock optionId))) =
             sum_list (map opt_count (q_options q)) + 1
         \<and> sock \<in> set (q_answeredBy (record_answer q sock optionId))
         \<and> heap_get (fst (on_submit s sock pollId questionId optionId now)) a =
             Some (if q_totalAnswers q + 1 \<ge> length (students p) \<and> length (students p) > 0
                   then p\<lparr>pastQuestions :=
                             past_of (result_of (record_answer q sock optionId)) now
                               All_answered # pastQuestions p,
                           currentQuestion := None\<rparr>
                   else p\<lparr>currentQuestion := Some (record_answer q sock optionId)\<rparr>)"
proof -
  have l: "lookup_poll s sock pollId = Some (a, p)"
    using assms(1,2) by (simp add: lookup_poll_def)
  obtain x where f: "find (\<lambda>x. opt_id x = optionId) (q_options q) = Some x"
    using assms(7) find_option_Some by blast
  have hp: "heap_get s a = Some p" using l by (rule lookup_poll_heap)
  have g: "heap_get (heap_set s a p') a = Some p'" for p'
    using hp by (rule heap_get_set_same)
  have r: "q_totalAnswers (record_answer q sock optionId) = q_totalAnswers q + 1"
    "sock \<in> set (q_answeredBy (record_answer q sock optionId))"
    "q_options (record_answer q sock optionId) = bump_option optionId (q_options q)"
    by (simp_all add: record_answer_def set_add_def)
  show ?thesis
    unfolding on_submit_accepted[OF l assms(3-6) f] using g r sum_bump_in[OF assms(7)]
    by (simp add: results_update_def field_def)
qed

theorem submit_ignores_roster_witness:
  "truthy (Some ''poll01'')
   \<and> polls_get (run init evs_asked) (Some ''poll01'') = Some (0, poll_asked)
   \<and> currentQuestion poll_asked = Some q1_asked
   \<and> q_id q1_asked = ''q1'' \<and> q_status q1_asked = Active
   \<and> ''x'' \<notin> set (q_answeredBy q1_asked)
   \<and> ''o1'' \<in> opt_id ` set (q_options q1_asked)
   \<and> \<not> has ''x'' (students poll_asked)
   \<and> hd (snd (on_submit (run init evs_asked) ''x'' (Some ''poll01'') ''q1'' ''o1'' 1001)) =
       Emit (ToRoom ''poll01'') ''results:update''
         (JObj [(''questionId'', JStr ''q1''),
                (''options'',
                 JArr [JObj [(''id'', JStr ''o1''), (''text'', JStr ''3''), (''count'', JNum 1)],
                       JObj [(''id'', JStr ''o2''), (''text'', JStr ''4''), (''count'', JNum 0)]]),
                (''totalAnswers'', JNum 1), (''studentsTotal'', JNum 2)])
   \<and> heap_get (fst (on_submit (run init evs_asked) ''x'' (Some ''poll01'') ''q1'' ''o1'' 1001)) 0
       = Some (poll_asked\<lparr>currentQuestion := Some (record_answer q1_asked ''x'' ''o1'')\<rparr>)"
proof -
  have h1: "truthy (Some ''poll01'')" by code_simp
  have h2: "polls_get (run init evs_asked) (Some ''poll01'') = Some (0, poll_asked)"
    by code_simp
  have h3: "currentQuestion poll_asked = Some q1_asked" by code_simp
  have h4: "q_id q1_asked = ''q1''" by code_simp
  have h5: "q_status q1_asked = Active" by code_simp
  have h6: "''x'' \<notin> set (q_answeredBy q1_asked)" by code_simp
  have h7: "''o1'' \<in> opt_id ` set (q_options q1_asked)" by code_simp
  have h8: "\<not> has ''x'' (students poll_asked)" by code_simp
  have h9: "Emit (ToRoom (p_id poll_asked)) ''results:update''
             (results_update poll_asked (record_answer q1_asked ''x'' ''o1'')) =
       Emit (ToRoom ''poll01'') ''results:update''
         (JObj [(''questionId'', JStr ''q1''),
                (''options'',
                 JArr [JObj [(''id'', JStr ''o1''), (''text'', JStr ''3''), (''count'', JNum 1)],
                       JObj [(''id'', JStr ''o2''), (''text'', JStr ''4''), (''count'', JNum 0)]]),
                (''totalAnswers'', JNum 1), (''studentsTotal'', JNum 2)])"
    by code_simp
  have h10: "\<not> (q_totalAnswers q1_asked + 1 \<ge> length (students poll_asked)
                \<and> length (students poll_asked) > 0)"
    by code_simp
  show ?thesis
    using h1 h2 h3 h4 h5 h6 h7 h8 h9 h10
      submit_ignores_roster[OF h1 h2 h3 h4 h5 h6 h7, of 1001]
    by simp
qed

section \<open>Leaving the roster\<close>

lemma delete_absent: "\<not> has k m \<Longrightarrow> AList.delete k m = m"
  by (simp add: has_def AList.delete_notin_dom map_of_eq_None_iff AList.delete_idem delete_id)

lemma delete_shrinks: "has k m \<Longrightarrow> length (AList.delete k m) < length m"
proof (induction m)
  case Nil
  then show ?case by (simp add: has_def)
next
  case (Cons x m)
  have le: "length (AList.delete k m) \<le> length m"
    by (simp add: AList.delete_eq)
  show ?case
  proof (cases "fst x = k")
    case True
    then show ?thesis using le by simp
  next
    case False
    then have "has k m" using Cons.prems by (cases x) (auto simp: has_def)
    then show ?thesis using Cons.IH False by simp
  qed
qed

lemma disconnect_polls_frame:
  "disconnect_polls as sock (s, out) = (s', out') \<Longrightarrow>
   length (heap s') = length (heap s) \<and>
   (\<forall>a < length (heap s).
      currentQuestion (heap s' ! a) = currentQuestion (heap s ! a) \<and>
      students (heap s' ! a) =
        (if a \<in> set as then AList.delete sock (students (heap s ! a))
         else students (heap s ! a)))"
proof (induction as arbitrary: s out)
  case Nil
  then show ?case by simp
next
  case (Cons a as)
  show ?case
  proof (cases "heap_get s a")
    case None
    then have a: "\<not> a < length (heap s)" by (simp add: heap_get_def split: if_splits)
    have "disconnect_polls as sock (s, out) = (s', out')" using Cons.prems None by simp
    from Cons.IH[OF this] a show ?thesis by auto
  next
    case (Some p)
    then have a: "a < length (heap s)" and p: "heap s ! a = p"
      by (simp_all add: heap_get_def split: if_splits)
    define p2 where "p2 = (let p1 = (if has sock (students p)
                    then p\<lparr>students := AList.delete sock (students p)\<rparr> else p)
               in if teacherSocketId p1 = Some sock then p1\<lparr>teacherSocketId := None\<rparr> else p1)"
    have p2: "currentQuestion p2 = currentQuestion p"
       "students p2 = AList.delete sock (students p)"
      by (auto simp: p2_def Let_def delete_absent)
    obtain s1 out1 where rec: "disconnect_polls as sock (heap_set s1 a p2, out1) = (s', out')"
      and s1: "heap s1 = heap s"
      using Cons.prems Some
      by (auto simp: Let_def p2_def split: if_splits)
    have h: "heap (heap_set s1 a p2) = (heap s)[a := p2]" by (simp add: heap_set_def s1)
    from Cons.IH[OF rec] show ?thesis
      unfolding h using a p p2
      by (auto simp: nth_list_update AList.delete_idem)
  qed
qed

lemma on_disconnect_frame:
  "length (heap (fst (on_disconnect s sock))) = length (heap s) \<and>
   (\<forall>a < length (heap s).
      currentQuestion (heap (fst (on_disconnect s sock)) ! a) = currentQuestion (heap s ! a) \<and>
      students (heap (fst (on_disconnect s sock)) ! a) =
        (if a \<in> snd ` set (polls s) then AList.delete sock (students (heap s ! a))
         else students (heap s ! a)))"
proof -
  let ?s0 = "s\<lparr>sockets := removeAll sock (sockets s)\<rparr>"
  obtain s1 out where d: "disconnect_polls (map snd (polls ?s0)) sock (?s0, []) = (s1, out)"
    by (cases "disconnect_polls (map snd (polls ?s0)) sock (?s0, [])")
  have "heap (fst (on_disconnect s sock)) = heap s1"
    using d by (simp add: on_disconnect_def Let_def)
  then show ?thesis using disconnect_polls_frame[OF d] by simp
qed

text \<open>
  C6. Neither \<open>disconnect\<close> nor \<open>teacher:removeStudent\<close> changes the current question of
  any poll: totals, counts and all other fields stay. A disconnect deletes the socket
  from the roster of every poll in the map, and a removal by the bound teacher deletes
  the student from the roster of that poll; deleting a socket that is in a roster makes
  the roster shorter.
\<close>

theorem removal_keeps_answers:
  "current_of (fst (on_disconnect s sock)) a = current_of s a
   \<and> current_of (fst (on_removeStudent s t pollId studentId)) a = current_of s a
   \<and> (heap_get s a = Some p \<longrightarrow> a \<in> snd ` set (polls s) \<longrightarrow>
        map_option students (heap_get (fst (on_disconnect s sock)) a)
          = Some (AList.delete sock (students p)))
   \<and> (polls_get s pollId = Some (b, r) \<longrightarrow> teacherSocketId r = Some t \<longrightarrow>
        map_option students (heap_get (fst (on_removeStudent s t pollId studentId)) b)
          = Some (AList.delete studentId (students r)))
   \<and> (has k m \<longrightarrow> length (AList.delete k m) < length m)"
proof (intro conjI impI)
  show "current_of (fst (on_disconnect s sock)) a = current_of s a"
    using on_disconnect_frame[of s sock] by (simp add: current_of_def heap_get_def)
next
  show "current_of (fst (on_removeStudent s t pollId studentId)) a = current_of s a"
  proof (cases "polls_get s pollId")
    case None
    then show ?thesis by (simp add: on_removeStudent_def)
  next
    case (Some x)
    obtain c p' where x: "x = (c, p')" by (cases x)
    have "heap_get s c = Some p'" using Some x polls_get_heap by simp
    then show ?thesis
      using Some x
      by (auto simp: on_removeStudent_def Let_def current_of_def heap_get_def heap_set_def
                     nth_list_update split: if_splits)
  qed
next
  assume "heap_get s a = Some p" and "a \<in> snd ` set (polls s)"
  then show "map_option students (heap_get (fst (on_disconnect s sock)) a)
          = Some (AList.delete sock (students p))"
    using on_disconnect_frame[of s sock] by (auto simp: heap_get_def split: if_splits)
next
  assume g: "polls_get s pollId = Some (b, r)" and "teacherSocketId r = Some t"
  moreover have "heap_get s b = Some r" using g by (rule polls_get_heap)
  ultimately show "map_option students (heap_get (fst (on_removeStudent s t pollId studentId)) b)
          = Some (AList.delete studentId (students r))"
    by (auto simp: on_removeStudent_def Let_def heap_get_def heap_set_def delete_absent
             split: if_splits)
next
  assume "has k m"
  then show "length (AList.delete k m) < length m" by (rule delete_shrinks)
qed

theorem removal_keeps_answers_witness:
  "heap_get (run init evs_answered) 0 = Some poll_answered
   \<and> 0 \<in> snd ` set (polls (run init evs_answered))
   \<and> polls_get (run init evs_answered) (Some ''poll01'') = Some (0, poll_answered)
   \<and> teacherSocketId poll_answered = Some ''t''
   \<and> has ''a'' (students poll_answered)
   \<and> current_of (fst (on_disconnect (run init evs_answered) ''a'')) 0 = Some q1_answered
   \<and> current_of (fst (on_removeStudent (run init evs_answered) ''t'' (Some ''poll01'') ''a'')) 0
       = Some q1_answered
   \<and> map_option students (heap_get (fst (on_disconnect (run init evs_answered) ''a'')) 0)
       = Some [(''b'', \<lparr>s_id = ''b'', s_name = ''Bo''\<rparr>)]
   \<and> map_option students
        (heap_get (fst (on_removeStudent (run init evs_answered) ''t'' (Some ''poll01'') ''a'')) 0)
       = Some [(''b'', \<lparr>s_id = ''b'', s_name = ''Bo''\<rparr>)]
   \<and> length (AList.delete ''a'' (students poll_answered)) < length (students poll_answered)"
proof -
  have h1: "heap_get (run init evs_answered) 0 = Some poll_answered" by code_simp
  have h2: "0 \<in> snd ` set (polls (run init evs_answered))" by code_simp
  have h3: "polls_get (run init evs_answered) (Some ''poll01'') = Some (0, poll_answered)"
    by code_simp
  have h4: "teacherSocketId poll_answered = Some ''t''" by code_simp
  have h5: "has ''a'' (students poll_answered)" by code_simp
  have h6: "current_of (run init evs_answered) 0 = Some q1_answered" by code_simp
  have h7: "AList.delete ''a'' (students poll_answered)
              = [(''b'', \<lparr>s_id = ''b'', s_name = ''Bo''\<rparr>)]" by code_simp
  show ?thesis
    using h1 h2 h3 h4 h5 h6 h7
      removal_keeps_answers[where s = "run init evs_answered" and sock = "''a''" and a = 0
        and p = poll_answered and t = "''t''" and pollId = "Some ''poll01''"
        and studentId = "''a''" and b = 0 and r = poll_answered and k = "''a''"
        and m = "students poll_answered"]
    by simp
qed

section \<open>Asking while a question is active\<close>

text \<open>
  C1 as stated fails. After Ann has answered and Bo's connection has dropped, the total
  (1) has reached the size of the roster (1) while the question is still active;
  \<open>canAskNewQuestion\<close> then lets the bound teacher ask, and the new question takes the
  place of the active one, which never reaches the history.
\<close>

theorem ask_while_active_counterexample:
  "polls_get (run init evs_shrunk) (Some ''poll01'') = Some (0, poll_shrunk)
   \<and> teacherSocketId poll_shrunk = Some ''t''
   \<and> currentQuestion poll_shrunk = Some q1_answered
   \<and> q_status q1_answered = Active
   \<and> fst (on_askQuestion (run init evs_shrunk) ''t'' (Some ''poll01'') ''next'' [] None ''q2'' gen 1002)
       \<noteq> run init evs_shrunk
   \<and> map_option q_id
        (current_of (fst (on_askQuestion (run init evs_shrunk) ''t'' (Some ''poll01'') ''next'' []
                            None ''q2'' gen 1002)) 0) = Some ''q2''
   \<and> pastQuestions
        (heap (fst (on_askQuestion (run init evs_shrunk) ''t'' (Some ''poll01'') ''next'' []
                      None ''q2'' gen 1002)) ! 0) = []
   \<and> snd (on_askQuestion (run init evs_shrunk) ''t'' (Some ''poll01'') ''next'' [] None ''q2'' gen 1002)
       = [Emit (ToRoom ''poll01'') ''questionAsked''
            (JObj [(''id'', JStr ''q2''), (''text'', JStr ''next''),
                   (''options'',
                    JArr [JObj [(''id'', JStr ''o1''), (''text'', JStr ''A'')],
                          JObj [(''id'', JStr ''o2''), (''text'', JStr ''B'')],
                          JObj [(''id'', JStr ''o3''), (''text'', JStr ''C'')],
                          JObj [(''id'', JStr ''o4''), (''text'', JStr ''D'')]]),
                   (''askedAt'', JNum 1002), (''durationSec'', JNum 60)])]"
  by code_simp

text \<open>
  C1, amended. A \<open>teacher:askQuestion\<close> from the bound teacher, while the current question
  is active, is rejected unless the total has reached the size of a non-empty roster:
  the state is returned as it was and the only effect is the error message to the
  teacher.
\<close>

theorem ask_rejected_while_unanswered:
  assumes "polls_get s pollId = Some (a, p)" and "teacherSocketId p = Some sock"
    and "currentQuestion p = Some q" and "q_status q = Active"
    and "\<not> (q_totalAnswers q \<ge> length (students p) \<and> length (students p) > 0)"
  shows "on_askQuestion s sock pollId text options durationSec uuid uuids now =
           (s, [error_message sock ''Wait until previous question finishes''])"
  using assms by (simp add: on_askQuestion_def canAskNewQuestion_def)

theorem ask_rejected_while_unanswered_witness:
  "polls_get (run init evs_answered) (Some ''poll01'') = Some (0, poll_answered)
   \<and> teacherSocketId poll_answered = Some ''t''
   \<and> currentQuestion poll_answered = Some q1_answered
   \<and> q_status q1_answered = Active
   \<and> \<not> (q_totalAnswers q1_answered \<ge> length (students poll_answered)
          \<and> length (students poll_answered) > 0)
   \<and> on_askQuestion (run init evs_answered) ''t'' (Some ''poll01'') ''next'' [] None ''q2'' gen 1002
       = (run init evs_answered,
          [Emit (ToSocket ''t'') ''errorMessage'' (JStr ''Wait until previous question finishes'')])"
proof -
  have h1: "polls_get (run init evs_answered) (Some ''poll01'') = Some (0, poll_answered)"
    by code_simp
  have h2: "teacherSocketId poll_answered = Some ''t''" by code_simp
  have h3: "currentQuestion poll_answered = Some q1_answered" by code_simp
  have h4: "q_status q1_answered = Active" by code_simp
  have h5: "\<not> (q_totalAnswers q1_answered \<ge> length (students poll_answered)
               \<and> length (students poll_answered) > 0)" by code_simp
  show ?thesis
    using h1 h2 h3 h4 h5
      ask_rejected_while_unanswered[OF h1 h2 h3 h4 h5, of "''next''" "[]" None "''q2''" gen 1002]
    by (simp add: error_message_def)
qed

section \<open>Timers\<close>

text \<open>
  C2. The claim asks that a timeout callback armed for a question never finish another
  one. The code does cancel the timer of a question that \<open>endQuestion\<close> finishes, but not
  the timer of an active question that \<open>teacher:askQuestion\<close> replaces, and the callback
  holds the poll, not the question. Timer 0 was armed for question \<open>q1\<close>; after \<open>q1\<close> was
  replaced by \<open>q2\<close> (timer 1) it is still armed, and when it fires it finishes \<open>q2\<close> with
  reason \<open>timeout\<close>.
\<close>

theorem stale_timer_finishes_replacement:
  "map_option q_id (current_of (run init evs_asked) 0) = Some ''q1''
   \<and> map_option q_timerRef (current_of (run init evs_asked) 0) = Some (Some 0)
   \<and> map_option q_id (current_of (run init evs_replaced) 0) = Some ''q2''
   \<and> map_option q_timerRef (current_of (run init evs_replaced) 0) = Some (Some 1)
   \<and> map_of (timers (run init evs_replaced)) 0 = Some 0
   \<and> current_of (fst (on_timeout (run init evs_replaced) 0 1003)) 0 = None
   \<and> map h_questionId (pastQuestions (heap (fst (on_timeout (run init evs_replaced) 0 1003)) ! 0))
       = [''q2'']
   \<and> map h_reason (pastQuestions (heap (fst (on_timeout (run init evs_replaced) 0 1003)) ! 0))
       = [Timeout]
   \<and> snd (on_timeout (run init evs_replaced) 0 1003)
       = [Emit (ToRoom ''poll01'') ''questionFinished''
            (JObj [(''questionId'', JStr ''q2''), (''text'', JStr ''next''),
                   (''options'',
                    JArr [JObj [(''id'', JStr ''o1''), (''text'', JStr ''A''), (''count'', JNum 0)],
                          JObj [(''id'', JStr ''o2''), (''text'', JStr ''B''), (''count'', JNum 0)],
                          JObj [(''id'', JStr ''o3''), (''text'', JStr ''C''), (''count'', JNum 0)],
                          JObj [(''id'', JStr ''o4''), (''text'', JStr ''D''), (''count'', JNum 0)]]),
                   (''totalAnswers'', JNum 0), (''durationSec'', JNum 60)])]"
  by code_simp

text \<open>
  No handler arms a dead handle again, and the handle of every current question was
  handed out before.
\<close>

lemma refs_ok_set: "refs_ok s \<Longrightarrow> ref_ok (nextTimer s) p \<Longrightarrow> refs_ok (heap_set s a p)"
  by (auto simp: refs_ok_def heap_set_def list_all_iff
           dest!: set_update_subset_insert[THEN subsetD])

lemma refs_ok_get: "refs_ok s \<Longrightarrow> heap_get s a = Some p \<Longrightarrow> ref_ok (nextTimer s) p"
  by (auto simp: refs_ok_def heap_get_def list_all_iff split: if_splits)

lemma refs_ok_modify:
  "refs_ok s \<Longrightarrow> heap_get s a = Some p \<Longrightarrow> currentQuestion p' = currentQuestion p \<Longrightarrow>
   refs_ok (heap_set s a p')"
  using refs_ok_get[of s a p] refs_ok_set[of s p' a] by (simp add: ref_ok_def)

lemma refs_ok_upd [simp]:
  "refs_ok (s\<lparr>timers := ts\<rparr>) = refs_ok s"
  "refs_ok (s\<lparr>waitingStudents := w\<rparr>) = refs_ok s"
  "refs_ok (s\<lparr>activePollId := ap\<rparr>) = refs_ok s"
  "refs_ok (s\<lparr>sockets := so\<rparr>) = refs_ok s"
  "refs_ok (s\<lparr>polls := ps\<rparr>) = refs_ok s"
  by (simp_all add: refs_ok_def)

lemma timer_dead_upd [simp]:
  "timer_dead h (s\<lparr>waitingStudents := w\<rparr>) = timer_dead h s"
  "timer_dead h (s\<lparr>activePollId := ap\<rparr>) = timer_dead h s"
  "timer_dead h (s\<lparr>sockets := so\<rparr>) = timer_dead h s"
  "timer_dead h (s\<lparr>polls := ps\<rparr>) = timer_dead h s"
  "timer_dead h (s\<lparr>heap := hp\<rparr>) = timer_dead h s"
  "timer_dead h (heap_set s a p) = timer_dead h s"
  by (simp_all add: timer_dead_def heap_set_def)

lemma timer_dead_delete: "timer_dead h s \<Longrightarrow> timer_dead h (s\<lparr>timers := AList.delete k (timers s)\<rparr>)"
  by (simp add: timer_dead_def AList.delete_conv)

lemma endQuestion_refs: "refs_ok s \<Longrightarrow> refs_ok (fst (endQuestion s a rs now))"
  by (auto simp: endQuestion_def Let_def ref_ok_def intro!: refs_ok_set split: option.splits)

lemma endQuestion_dead: "timer_dead h s \<Longrightarrow> timer_dead h (fst (endQuestion s a rs now))"
  by (auto simp: endQuestion_def Let_def clearTimeout_def timer_dead_def heap_set_def
                 AList.delete_conv split: option.splits)

lemma createPoll_refs: "refs_ok s \<Longrightarrow> refs_ok (fst (createPoll s u))"
  by (simp add: createPoll_def Let_def refs_ok_def ref_ok_def)

lemma createPoll_dead: "timer_dead h s \<Longrightarrow> timer_dead h (fst (createPoll s u))"
  by (simp add: createPoll_def Let_def)

lemma on_teacher_init_shape:
  "\<exists>s1 a p p2 w ap.
     on_teacher_init s sock i u = (heap_set (s1\<lparr>activePollId := ap, waitingStudents := w\<rparr>) a p2,
                                   snd (on_teacher_init s sock i u))
     \<and> (s1 = s \<or> s1 = fst (createPoll s u)) \<and> heap_get s1 a = Some p
     \<and> currentQuestion p2 = currentQuestion p"
proof -
  obtain s1 a p where sel:
    "(case (if truthy i then polls_get s i else None) of
        Some (a, p) \<Rightarrow> (s, a, p) | None \<Rightarrow> createPoll s u) = (s1, a, p)"
    by (metis prod_cases3)
  have s1: "(s1 = s \<or> s1 = fst (createPoll s u)) \<and> heap_get s1 a = Some p"
    using sel createPoll_get[of s u s1 a p]
    by (auto split: option.splits if_splits dest: polls_get_heap)
  let ?p1 = "p\<lparr>teacherSocketId := Some sock\<rparr>"
  obtain w p2 out2 where aw:
    "attach_waiting (waitingStudents s1) (sockets s1)
       (waitingStudents s1, ?p1,
        [Join sock (p_id p), Emit (ToSocket sock) ''teacher:ready'' (teacher_ready ?p1)])
     = (w, p2, out2)"
    by (metis prod_cases3)
  have "currentQuestion p2 = currentQuestion p" using attach_waiting_cq[OF aw] by simp
  moreover have "on_teacher_init s sock i u =
      (heap_set (s1\<lparr>activePollId := Some (p_id p), waitingStudents := w\<rparr>) a p2, out2)"
    using sel aw by (simp add: on_teacher_init_def Let_def)
  ultimately show ?thesis using s1 by (metis snd_conv)
qed

lemma on_teacher_init_refs: "refs_ok s \<Longrightarrow> refs_ok (fst (on_teacher_init s sock i u))"
proof -
  assume ok: "refs_ok s"
  obtain s1 a p p2 w ap where sh:
    "on_teacher_init s sock i u = (heap_set (s1\<lparr>activePollId := ap, waitingStudents := w\<rparr>) a p2,
                                   snd (on_teacher_init s sock i u))"
    "s1 = s \<or> s1 = fst (createPoll s u)" "heap_get s1 a = Some p"
    "currentQuestion p2 = currentQuestion p"
    using on_teacher_init_shape by blast
  have "refs_ok s1" using sh(2) ok createPoll_refs by auto
  then have "refs_ok (heap_set (s1\<lparr>activePollId := ap, waitingStudents := w\<rparr>) a p2)"
    using sh(3,4)
      refs_ok_modify[of "s1\<lparr>activePollId := ap, waitingStudents := w\<rparr>" a p p2]
    by simp
  then show ?thesis using sh(1) by (metis fst_conv)
qed

lemma on_teacher_init_dead: "timer_dead h s \<Longrightarrow> timer_dead h (fst (on_teacher_init s sock i u))"
proof -
  assume d: "timer_dead h s"
  obtain s1 a p p2 w ap where sh:
    "on_teacher_init s sock i u = (heap_set (s1\<lparr>activePollId := ap, waitingStudents := w\<rparr>) a p2,
                                   snd (on_teacher_init s sock i u))"
    "s1 = s \<or> s1 = fst (createPoll s u)"
    using on_teacher_init_shape by blast
  have "timer_dead h s1" using sh(2) d createPoll_dead by auto
  then have "timer_dead h (heap_set (s1\<lparr>activePollId := ap, waitingStudents := w\<rparr>) a p2)"
    by simp
  then show ?thesis using sh(1) by (metis fst_conv)
qed

lemma on_student_init_refs: "refs_ok s \<Longrightarrow> refs_ok (fst (on_student_init s sock i n))"
proof (cases "student_poll s i")
  case None
  assume "refs_ok s"
  then show ?thesis using None by (simp add: on_student_init_def)
next
  case (Some r)
  assume ok: "refs_ok s"
  obtain a p where r: "r = (a, p)" by (cases r)
  have "heap_get s a = Some p" using Some r student_poll_heap by simp
  then show ?thesis
    using Some r ok by (simp add: on_student_init_def Let_def refs_ok_modify)
qed

lemma on_student_init_dead: "timer_dead h s \<Longrightarrow> timer_dead h (fst (on_student_init s sock i n))"
  by (auto simp: on_student_init_def Let_def split: option.splits)

lemma ref_ok_mono: "ref_ok n p \<Longrightarrow> n \<le> m \<Longrightarrow> ref_ok m p"
  by (auto simp: ref_ok_def split: option.splits)

lemma on_askQuestion_refs:
  "refs_ok s \<Longrightarrow> refs_ok (fst (on_askQuestion s sock i t os d u us now))"
proof -
  assume ok: "refs_ok s"
  have up: "list_all (ref_ok (Suc (nextTimer s))) ((heap s)[a := p])"
    if "ref_ok (Suc (nextTimer s)) p" for a p
    using ok that
    by (auto simp: refs_ok_def list_all_iff intro: ref_ok_mono[of "nextTimer s"]
             dest!: set_update_subset_insert[THEN subsetD])
  show ?thesis
  proof (cases "polls_get s i")
    case None
    then show ?thesis using ok by (simp add: on_askQuestion_def)
  next
    case (Some r)
    obtain a p where r: "r = (a, p)" by (cases r)
    show ?thesis
    proof (cases "teacherSocketId p = Some sock \<and> canAskNewQuestion p")
      case False
      then show ?thesis using ok Some r by (auto simp: on_askQuestion_def)
    next
      case True
      then show ?thesis
        using Some r
        by (auto simp: on_askQuestion_def Let_def refs_ok_def heap_set_def
                 intro!: up simp: ref_ok_def)
    qed
  qed
qed

lemma on_askQuestion_dead:
  "timer_dead h s \<Longrightarrow> timer_dead h (fst (on_askQuestion s sock i t os d u us now))"
  by (auto simp: on_askQuestion_def Let_def timer_dead_def heap_set_def split: option.splits)

lemma on_submit_refs: "refs_ok s \<Longrightarrow> refs_ok (fst (on_submit s sock i qi oi now))"
proof -
  assume ok: "refs_ok s"
  have r: "ref_ok (nextTimer s) (p\<lparr>currentQuestion := Some (record_answer q sock oi)\<rparr>)"
    if "lookup_poll s sock i = Some (a, p)" "currentQuestion p = Some q" for a p q
    using that ok lookup_poll_heap[of s sock i a p] refs_ok_get[of s a p]
    by (simp add: ref_ok_def record_answer_def)
  show ?thesis
    using ok
    by (auto simp: on_submit_def Let_def case_prod_unfold
             intro!: refs_ok_set endQuestion_refs r
             split: option.splits if_splits)
qed

lemma on_submit_dead: "timer_dead h s \<Longrightarrow> timer_dead h (fst (on_submit s sock i qi oi now))"
  by (auto simp: on_submit_def Let_def case_prod_unfold intro!: endQuestion_dead
           split: option.splits if_splits)

lemma on_endQuestion_refs: "refs_ok s \<Longrightarrow> refs_ok (fst (on_endQuestion s sock i now))"
  by (auto simp: on_endQuestion_def endQuestion_refs split: option.splits)

lemma on_endQuestion_dead: "timer_dead h s \<Longrightarrow> timer_dead h (fst (on_endQuestion s sock i now))"
  by (auto simp: on_endQuestion_def endQuestion_dead split: option.splits)

lemma on_removeStudent_refs: "refs_ok s \<Longrightarrow> refs_ok (fst (on_removeStudent s sock i st))"
proof (cases "polls_get s i")
  case None
  assume "refs_ok s"
  then show ?thesis using None by (simp add: on_removeStudent_def)
next
  case (Some r)
  assume ok: "refs_ok s"
  obtain a p where r: "r = (a, p)" by (cases r)
  have "heap_get s a = Some p" using Some r polls_get_heap by simp
  then show ?thesis
    using Some r ok by (simp add: on_removeStudent_def Let_def refs_ok_modify)
qed

lemma on_removeStudent_dead:
  "timer_dead h s \<Longrightarrow> timer_dead h (fst (on_removeStudent s sock i st))"
  by (auto simp: on_removeStudent_def Let_def split: option.splits)

lemma on_chat_send_same: "fst (on_chat_send s sock i f m r u now) = s"
  by (auto simp: on_chat_send_def split: option.splits)

lemma disconnect_polls_refs:
  "refs_ok s \<Longrightarrow> refs_ok (fst (disconnect_polls as sock (s, out)))"
proof (induction as arbitrary: s out)
  case Nil
  then show ?case by simp
next
  case (Cons a as)
  show ?case
  proof (cases "heap_get s a")
    case None
    then show ?thesis using Cons by simp
  next
    case (Some p)
    then show ?thesis
      using Cons.prems
      by (auto simp: Let_def intro!: Cons.IH refs_ok_modify[of _ a p])
  qed
qed

lemma disconnect_polls_dead:
  "timer_dead h s \<Longrightarrow> timer_dead h (fst (disconnect_polls as sock (s, out)))"
proof (induction as arbitrary: s out)
  case Nil
  then show ?case by simp
next
  case (Cons a as)
  then show ?case
    by (cases "heap_get s a") (auto simp: Let_def intro!: Cons.IH)
qed

lemma on_disconnect_refs: "refs_ok s \<Longrightarrow> refs_ok (fst (on_disconnect s sock))"
  using disconnect_polls_refs[of "s\<lparr>sockets := removeAll sock (sockets s)\<rparr>" "map snd (polls s)" sock "[]"]
  by (simp add: on_disconnect_def Let_def case_prod_unfold)

lemma on_disconnect_dead: "timer_dead h s \<Longrightarrow> timer_dead h (fst (on_disconnect s sock))"
  using disconnect_polls_dead[of h "s\<lparr>sockets := removeAll sock (sockets s)\<rparr>" "map snd (polls s)" sock "[]"]
  by (simp add: on_disconnect_def Let_def case_prod_unfold)

lemma on_timeout_refs: "refs_ok s \<Longrightarrow> refs_ok (fst (on_timeout s h now))"
  by (auto simp: on_timeout_def endQuestion_refs split: option.splits)

lemma on_timeout_dead: "timer_dead h s \<Longrightarrow> timer_dead h (fst (on_timeout s k now))"
  by (auto simp: on_timeout_def intro!: endQuestion_dead timer_dead_delete split: option.splits)

lemma step_refs: "refs_ok s \<Longrightarrow> refs_ok (fst (step s e))"
  by (cases e)
     (simp_all add: createPoll_refs on_teacher_init_refs on_student_init_refs
        on_askQuestion_refs on_submit_refs on_endQuestion_refs on_removeStudent_refs
        on_chat_send_same on_disconnect_refs on_timeout_refs)

lemma step_dead: "timer_dead h s \<Longrightarrow> timer_dead h (fst (step s e))"
  by (cases e)
     (simp_all add: createPoll_dead on_teacher_init_dead on_student_init_dead
        on_askQuestion_dead on_submit_dead on_endQuestion_dead on_removeStudent_dead
        on_chat_send_same on_disconnect_dead on_timeout_dead)

lemma run_refs: "refs_ok s \<Longrightarrow> refs_ok (run s es)"
  by (induction es arbitrary: s) (simp_all add: step_refs)

lemma run_dead: "timer_dead h s \<Longrightarrow> timer_dead h (run s es)"
  by (induction es arbitrary: s) (simp_all add: step_dead)

lemma init_refs: "refs_ok init"
  by (simp add: init_def refs_ok_def)

text \<open>
  Where a question is finished by \<open>endQuestion\<close>, be it called by the teacher's request,
  by the last answer or by a timer, the cancellation holds: the timer of the finished
  question is not armed afterwards, nor in any state the server reaches from there,
  so its firing changes nothing.
\<close>

lemma finished_timer_stays_dead:
  assumes "refs_ok s" and "heap_get s a = Some p" and "currentQuestion p = Some q"
    and "q_timerRef q = Some h"
  shows "timers (fst (endQuestion s a rs now)) = AList.delete h (timers s)
         \<and> map_of (timers (run (fst (endQuestion s a rs now)) es)) h = None
         \<and> on_timeout (run (fst (endQuestion s a rs now)) es) h t =
             (run (fst (endQuestion s a rs now)) es, [])"
proof -
  let ?s' = "fst (endQuestion s a rs now)"
  have "h < nextTimer s"
    using assms refs_ok_get[of s a p] by (simp add: ref_ok_def)
  moreover have t: "timers ?s' = AList.delete h (timers s)" and "nextTimer ?s' = nextTimer s"
    using assms by (simp_all add: endQuestion_current clearTimeout_def heap_set_def)
  ultimately have "timer_dead h ?s'" by (simp add: timer_dead_def)
  then have "timer_dead h (run ?s' es)" by (rule run_dead)
  then have "map_of (timers (run ?s' es)) h = None" by (simp add: timer_dead_def)
  then show ?thesis using t by (simp add: on_timeout_def)
qed

lemma reachable_refs_ok: "refs_ok (run init es)"
  by (simp add: run_refs init_refs)

section \<open>Payloads sent on attach and on finish\<close>

lemma attach_waiting_prefix:
  "attach_waiting es live (w, p, out) = (w', p', out') \<Longrightarrow> take (length out) out' = out"
proof (induction es live "(w, p, out)" arbitrary: w p out rule: attach_waiting.induct)
  case (1 live acc)
  then show ?case by simp
next
  case (2 sd name es live w p out)
  show ?case
  proof (cases "sd \<in> set live")
    case False
    then show ?thesis using 2 by simp
  next
    case True
    let ?p1 = "p\<lparr>students := AList.update sd \<lparr>s_id = sd, s_name = take 40 (trim name)\<rparr> (students p)\<rparr>"
    let ?out1 = "out @ [Join sd (p_id ?p1),
                      Emit (ToRoom (p_id ?p1)) ''roster:update'' (roster ?p1),
                      Emit (ToSocket sd) ''student:ready'' (student_ready ?p1)]"
    have r: "attach_waiting es live (AList.delete sd w, ?p1, ?out1) = (w', p', out')"
      using "2.prems" True by (simp add: Let_def)
    have "take (length ?out1) out' = ?out1"
      using "2.hyps"(2)[OF _ refl refl r] True by simp
    then have "take (length out) (take (length ?out1) out') = take (length out) ?out1"
      by simp
    then show ?thesis by (simp add: min_def)
  qed
qed

text \<open>
  C8 as stated fails. While the question is active and option \<open>o2\<close> has one answer, a
  student who joins gets \<open>student:ready\<close>, and a teacher who attaches gets \<open>teacher:ready\<close>,
  with the count of every option and the total.
\<close>

theorem snapshot_counts_counterexample:
  "map_option q_status (current_of (run init evs_answered) 0) = Some Active
   \<and> snd (on_student_init (run init evs_answered) ''c'' None ''Cy'') =
       [Join ''c'' ''poll01'',
        Emit (ToRoom ''poll01'') ''roster:update''
          (JArr [JObj [(''id'', JStr ''a''), (''name'', JStr ''Ann'')],
                 JObj [(''id'', JStr ''b''), (''name'', JStr ''Bo'')],
                 JObj [(''id'', JStr ''c''), (''name'', JStr ''Cy'')]]),
        Emit (ToSocket ''c'') ''student:ready''
          (JObj [(''currentQuestion'',
                  JObj [(''id'', JStr ''q1''), (''text'', JStr ''2+2?''),
                        (''options'',
                         JArr [JObj [(''id'', JStr ''o1''), (''text'', JStr ''3''),
                                     (''count'', JNum 0)],
                               JObj [(''id'', JStr ''o2''), (''text'', JStr ''4''),
                                     (''count'', JNum 1)]]),
                        (''askedAt'', JNum 1000), (''durationSec'', JNum 10),
                        (''totalAnswers'', JNum 1), (''status'', JStr ''active'')]),
                 (''pastQuestions'', JArr [])])]
   \<and> snd (on_teacher_init (run init evs_answered) ''t'' (Some ''poll01'') ''u'') =
       [Join ''t'' ''poll01'',
        Emit (ToSocket ''t'') ''teacher:ready''
          (JObj [(''pollId'', JStr ''poll01''),
                 (''students'',
                  JArr [JObj [(''id'', JStr ''a''), (''name'', JStr ''Ann'')],
                        JObj [(''id'', JStr ''b''), (''name'', JStr ''Bo'')]]),
                 (''currentQuestion'',
                  JObj [(''id'', JStr ''q1''), (''text'', JStr ''2+2?''),
                        (''options'',
                         JArr [JObj [(''id'', JStr ''o1''), (''text'', JStr ''3''),
                                     (''count'', JNum 0)],
                               JObj [(''id'', JStr ''o2''), (''text'', JStr ''4''),
                                     (''count'', JNum 1)]]),
                        (''askedAt'', JNum 1000), (''durationSec'', JNum 10),
                        (''totalAnswers'', JNum 1), (''status'', JStr ''active'')]),
                 (''pastQuestions'', JArr [])])]"
  by code_simp

lemma attach_waiting_keeps:
  "attach_waiting es live (w, p, out) = (w', p', out') \<Longrightarrow>
   set out \<subseteq> set out' \<and> pastQuestions p' = pastQuestions p"
proof (induction es live "(w, p, out)" arbitrary: w p out rule: attach_waiting.induct)
  case (1 live acc)
  then show ?case by simp
next
  case (2 sd name es live w p out)
  show ?case
  proof (cases "sd \<in> set live")
    case False
    then show ?thesis using 2 by simp
  next
    case True
    let ?p1 = "p\<lparr>students := AList.update sd \<lparr>s_id = sd, s_name = take 40 (trim name)\<rparr> (students p)\<rparr>"
    let ?out1 = "out @ [Join sd (p_id ?p1),
                      Emit (ToRoom (p_id ?p1)) ''roster:update'' (roster ?p1),
                      Emit (ToSocket sd) ''student:ready'' (student_ready ?p1)]"
    have r: "attach_waiting es live (AList.delete sd w, ?p1, ?out1) = (w', p', out')"
      using "2.prems" True by (simp add: Let_def)
    from "2.hyps"(2)[OF _ refl refl r] True show ?thesis by auto
  qed
qed

lemma attach_waiting_ready:
  "attach_waiting es live (w, p, out) = (w', p', out') \<Longrightarrow>
   (sd, name) \<in> set es \<Longrightarrow> sd \<in> set live \<Longrightarrow>
   Emit (ToSocket sd) ''student:ready''
     (JObj [(''currentQuestion'', snapshot (currentQuestion p)),
            (''pastQuestions'', JArr (map enc_past (pastQuestions p)))]) \<in> set out'"
proof (induction es live "(w, p, out)" arbitrary: w p out rule: attach_waiting.induct)
  case (1 live acc)
  then show ?case by simp
next
  case (2 sd' name' es live w p out)
  let ?p1 = "p\<lparr>students := AList.update sd' \<lparr>s_id = sd', s_name = take 40 (trim name')\<rparr> (students p)\<rparr>"
  let ?out1 = "out @ [Join sd' (p_id ?p1),
                    Emit (ToRoom (p_id ?p1)) ''roster:update'' (roster ?p1),
                    Emit (ToSocket sd') ''student:ready'' (student_ready ?p1)]"
  show ?case
  proof (cases "sd' \<in> set live")
    case False
    then have r: "attach_waiting es live (AList.delete sd' w, p, out) = (w', p', out')"
      using "2.prems"(1) by simp
    have "(sd, name) \<in> set es" using "2.prems"(2,3) False by auto
    from "2.hyps"(1)[OF False r this "2.prems"(3)] show ?thesis .
  next
    case True
    have r: "attach_waiting es live (AList.delete sd' w, ?p1, ?out1) = (w', p', out')"
      using "2.prems"(1) True by (simp add: Let_def)
    show ?thesis
    proof (cases "(sd, name) \<in> set es")
      case True
      from "2.hyps"(2)[OF _ refl refl r True "2.prems"(3)] \<open>sd' \<in> set live\<close>
      show ?thesis by simp
    next
      case False
      then have "sd = sd'" using "2.prems"(2) by auto
      moreover have "set ?out1 \<subseteq> set out'" using attach_waiting_keeps[OF r] by simp
      ultimately show ?thesis by (auto simp: student_ready_def)
    qed
  qed
qed

text \<open>
  C8, amended. The snapshot sent on attach holds the current question, while it is
  active, as an object with \<open>id\<close>, \<open>text\<close>, \<open>options\<close>, \<open>askedAt\<close>, \<open>durationSec\<close>,
  \<open>totalAnswers\<close> and \<open>status\<close>, every option with its \<open>id\<close>, \<open>text\<close> and current \<open>count\<close>.
  This object is the \<open>currentQuestion\<close> of the \<open>student:ready\<close> a joining student gets, of
  the \<open>teacher:ready\<close> an attaching teacher gets, and of the \<open>student:ready\<close> every waiting
  student with a live connection gets when a teacher attaches.
\<close>

theorem attach_snapshot_carries_counts:
  assumes "q_status q = Active"
    and "snap =
      JObj [(''id'', JStr (q_id q)), (''text'', JStr (q_text q)),
            (''options'',
             JArr (map (\<lambda>x. JObj [(''id'', JStr (opt_id x)), (''text'', JStr (opt_text x)),
                                    (''count'', JNum (int (opt_count x)))])
                       (q_options q))),
            (''askedAt'', JNum (q_askedAt q)),
            (''durationSec'', JNum (q_durationSec q)),
            (''totalAnswers'', JNum (int (q_totalAnswers q))),
            (''status'', JStr ''active'')]"
  shows "(student_poll s pollId = Some (a, p) \<longrightarrow> currentQuestion p = Some q \<longrightarrow>
      last (snd (on_student_init s sock pollId name)) =
        Emit (ToSocket sock) ''student:ready''
          (JObj [(''currentQuestion'', snap),
                 (''pastQuestions'', JArr (map enc_past (pastQuestions p)))]))
   \<and> (truthy pollId' \<longrightarrow> polls_get s pollId' = Some (b, r) \<longrightarrow> currentQuestion r = Some q \<longrightarrow>
        take 2 (snd (on_teacher_init s sock pollId' uuid)) =
          [Join sock (p_id r),
           Emit (ToSocket sock) ''teacher:ready''
             (JObj [(''pollId'', JStr (p_id r)),
                    (''students'',
                     JArr (map (\<lambda>(k, st). JObj [(''id'', JStr (s_id st)),
                                                 (''name'', JStr (s_name st))])
                               (students r))),
                    (''currentQuestion'', snap),
                    (''pastQuestions'', JArr (map enc_past (pastQuestions r)))])])
   \<and> (truthy pollId' \<longrightarrow> polls_get s pollId' = Some (b, r) \<longrightarrow> currentQuestion r = Some q \<longrightarrow>
        (sd, nm) \<in> set (waitingStudents s) \<longrightarrow> sd \<in> set (sockets s) \<longrightarrow>
        Emit (ToSocket sd) ''student:ready''
          (JObj [(''currentQuestion'', snap),
                 (''pastQuestions'', JArr (map enc_past (pastQuestions r)))])
          \<in> set (snd (on_teacher_init s sock pollId' uuid)))"
proof (intro conjI impI)
  have sn: "snapshot (Some q) = snap"
    using assms by (simp add: snapshot_def enc_opt_fun enc_status_def)
  {
    assume "student_poll s pollId = Some (a, p)" and "currentQuestion p = Some q"
    then show "last (snd (on_student_init s sock pollId name)) =
        Emit (ToSocket sock) ''student:ready''
          (JObj [(''currentQuestion'', snap),
                 (''pastQuestions'', JArr (map enc_past (pastQuestions p)))])"
      using sn by (simp add: on_student_init_def Let_def student_ready_def)
  }
  assume t: "truthy pollId'" and g: "polls_get s pollId' = Some (b, r)"
    and c: "currentQuestion r = Some q"
  let ?p1 = "r\<lparr>teacherSocketId := Some sock\<rparr>"
  let ?out = "[Join sock (p_id ?p1), Emit (ToSocket sock) ''teacher:ready'' (teacher_ready ?p1)]"
  let ?s2 = "s\<lparr>activePollId := Some (p_id ?p1)\<rparr>"
  obtain w p2 out2 where aw:
    "attach_waiting (waitingStudents ?s2) (sockets ?s2) (waitingStudents ?s2, ?p1, ?out)
       = (w, p2, out2)"
    by (metis prod_cases3)
  have out: "snd (on_teacher_init s sock pollId' uuid) = out2"
    using t g aw by (simp add: on_teacher_init_def Let_def)
  have "take (length ?out) out2 = ?out" using aw by (rule attach_waiting_prefix)
  then show "take 2 (snd (on_teacher_init s sock pollId' uuid)) =
          [Join sock (p_id r),
           Emit (ToSocket sock) ''teacher:ready''
             (JObj [(''pollId'', JStr (p_id r)),
                    (''students'',
                     JArr (map (\<lambda>(k, st). JObj [(''id'', JStr (s_id st)),
                                                 (''name'', JStr (s_name st))])
                               (students r))),
                    (''currentQuestion'', snap),
                    (''pastQuestions'', JArr (map enc_past (pastQuestions r)))])]"
    using c sn out
    by (simp add: teacher_ready_def roster_def enc_student_def numeral_2_eq_2)
  assume "(sd, nm) \<in> set (waitingStudents s)" and "sd \<in> set (sockets s)"
  then have "Emit (ToSocket sd) ''student:ready''
     (JObj [(''currentQuestion'', snapshot (currentQuestion ?p1)),
            (''pastQuestions'', JArr (map enc_past (pastQuestions ?p1)))]) \<in> set out2"
    using attach_waiting_ready[OF aw, of sd nm] by simp
  then show "Emit (ToSocket sd) ''student:ready''
          (JObj [(''currentQuestion'', snap),
                 (''pastQuestions'', JArr (map enc_past (pastQuestions r)))])
          \<in> set (snd (on_teacher_init s sock pollId' uuid))"
    using c sn out by simp
qed

theorem attach_snapshot_carries_counts_witness:
  "q_status q1_answered = Active
   \<and> student_poll (run init evs_answered) None = Some (0, poll_answered)
   \<and> truthy (Some ''poll01'')
   \<and> polls_get (run init evs_answered) (Some ''poll01'') = Some (0, poll_answered)
   \<and> currentQuestion poll_answered = Some q1_answered
   \<and> polls_get (run init evs_waiting) (Some ''poll01'') = Some (0, poll_leaderless)
   \<and> currentQuestion poll_leaderless = Some q1_answered
   \<and> (''c'', ''Cy'') \<in> set (waitingStudents (run init evs_waiting))
   \<and> ''c'' \<in> set (sockets (run init evs_waiting))
   \<and> last (snd (on_student_init (run init evs_answered) ''c'' None ''Cy'')) =
        Emit (ToSocket ''c'') ''student:ready''
          (JObj [(''currentQuestion'',
                  JObj [(''id'', JStr ''q1''), (''text'', JStr ''2+2?''),
                        (''options'',
                         JArr [JObj [(''id'', JStr ''o1''), (''text'', JStr ''3''),
                                     (''count'', JNum 0)],
                               JObj [(''id'', JStr ''o2''), (''text'', JStr ''4''),
                                     (''count'', JNum 1)]]),
                        (''askedAt'', JNum 1000), (''durationSec'', JNum 10),
                        (''totalAnswers'', JNum 1), (''status'', JStr ''active'')]),
                 (''pastQuestions'', JArr [])])
   \<and> take 2 (snd (on_teacher_init (run init evs_answered) ''t'' (Some ''poll01'') ''u'')) =
          [Join ''t'' ''poll01'',
           Emit (ToSocket ''t'') ''teacher:ready''
             (JObj [(''pollId'', JStr ''poll01''),
                    (''students'',
                     JArr [JObj [(''id'', JStr ''a''), (''name'', JStr ''Ann'')],
                           JObj [(''id'', JStr ''b''), (''name'', JStr ''Bo'')]]),
                    (''currentQuestion'',
                     JObj [(''id'', JStr ''q1''), (''text'', JStr ''2+2?''),
                           (''options'',
                            JArr [JObj [(''id'', JStr ''o1''), (''text'', JStr ''3''),
                                        (''count'', JNum 0)],
                                  JObj [(''id'', JStr ''o2''), (''text'', JStr ''4''),
                                        (''count'', JNum 1)]]),
                           (''askedAt'', JNum 1000), (''durationSec'', JNum 10),
                           (''totalAnswers'', JNum 1), (''status'', JStr ''active'')]),
                    (''pastQuestions'', JArr [])])]
   \<and> Emit (ToSocket ''c'') ''student:ready''
          (JObj [(''currentQuestion'',
                  JObj [(''id'', JStr ''q1''), (''text'', JStr ''2+2?''),
                        (''options'',
                         JArr [JObj [(''id'', JStr ''o1''), (''text'', JStr ''3''),
                                     (''count'', JNum 0)],
                               JObj [(''id'', JStr ''o2''), (''text'', JStr ''4''),
                                     (''count'', JNum 1)]]),
                        (''askedAt'', JNum 1000), (''durationSec'', JNum 10),
                        (''totalAnswers'', JNum 1), (''status'', JStr ''active'')]),
                 (''pastQuestions'', JArr [])])
        \<in> set (snd (on_teacher_init (run init evs_waiting) ''t2'' (Some ''poll01'') ''u''))"
proof -
  let ?snap = "JObj [(''id'', JStr ''q1''), (''text'', JStr ''2+2?''),
                        (''options'',
                         JArr [JObj [(''id'', JStr ''o1''), (''text'', JStr ''3''),
                                     (''count'', JNum 0)],
                               JObj [(''id'', JStr ''o2''), (''text'', JStr ''4''),
                                     (''count'', JNum 1)]]),
                        (''askedAt'', JNum 1000), (''durationSec'', JNum 10),
                        (''totalAnswers'', JNum 1), (''status'', JStr ''active'')]"
  have h0: "q_status q1_answered = Active" by code_simp
  have hs: "?snap =
      JObj [(''id'', JStr (q_id q1_answered)), (''text'', JStr (q_text q1_answered)),
            (''options'',
             JArr (map (\<lambda>x. JObj [(''id'', JStr (opt_id x)), (''text'', JStr (opt_text x)),
                                    (''count'', JNum (int (opt_count x)))])
                       (q_options q1_answered))),
            (''askedAt'', JNum (q_askedAt q1_answered)),
            (''durationSec'', JNum (q_durationSec q1_answered)),
            (''totalAnswers'', JNum (int (q_totalAnswers q1_answered))),
            (''status'', JStr ''active'')]"
    by (simp add: q1_answered_def)
  have h1: "student_poll (run init evs_answered) None = Some (0, poll_answered)" by code_simp
  have h2: "truthy (Some ''poll01'')" by code_simp
  have h3: "polls_get (run init evs_answered) (Some ''poll01'') = Some (0, poll_answered)"
    by code_simp
  have h4: "currentQuestion poll_answered = Some q1_answered" by code_simp
  have h5: "polls_get (run init evs_waiting) (Some ''poll01'') = Some (0, poll_leaderless)"
    by code_simp
  have h6: "currentQuestion poll_leaderless = Some q1_answered" by code_simp
  have h7: "(''c'', ''Cy'') \<in> set (waitingStudents (run init evs_waiting))" by code_simp
  have h8: "''c'' \<in> set (sockets (run init evs_waiting))" by code_simp
  have v: "pastQuestions poll_answered = []" "p_id poll_answered = ''poll01''"
    "pastQuestions poll_leaderless = []"
    "students poll_answered = [(''a'', \<lparr>s_id = ''a'', s_name = ''Ann''\<rparr>),
                                (''b'', \<lparr>s_id = ''b'', s_name = ''Bo''\<rparr>)]"
    by code_simp+
  show ?thesis
    using h0 h1 h2 h3 h4 h5 h6 h7 h8
      attach_snapshot_carries_counts[OF h0 hs, where s = "run init evs_answered"
        and pollId = None and a = 0 and p = poll_answered and sock = "''c''"
        and name = "''Cy''"]
      attach_snapshot_carries_counts[OF h0 hs, where s = "run init evs_answered"
        and pollId' = "Some ''poll01''" and b = 0 and r = poll_answered
        and sock = "''t''" and uuid = "''u''"]
      attach_snapshot_carries_counts[OF h0 hs, where s = "run init evs_waiting"
        and pollId' = "Some ''poll01''" and b = 0 and r = poll_leaderless
        and sock = "''t2''" and uuid = "''u''" and sd = "''c''" and nm = "''Cy''"]
    by (simp add: v)
qed

text \<open>
  C9 as stated fails. The \<open>questionFinished\<close> payload has neither a \<open>reason\<close> nor a
  \<open>finishedAt\<close> field: ending the question by the teacher at time 1002 and by timeout at
  time 2000 send the same message.
\<close>

theorem question_finished_payload_counterexample:
  "snd (on_endQuestion (run init evs_answered) ''t'' (Some ''poll01'') 1002) =
     [Emit (ToRoom ''poll01'') ''questionFinished''
        (JObj [(''questionId'', JStr ''q1''), (''text'', JStr ''2+2?''),
               (''options'',
                JArr [JObj [(''id'', JStr ''o1''), (''text'', JStr ''3''), (''count'', JNum 0)],
                      JObj [(''id'', JStr ''o2''), (''text'', JStr ''4''), (''count'', JNum 1)]]),
               (''totalAnswers'', JNum 1), (''durationSec'', JNum 10)])]
   \<and> field ''reason''
        (JObj [(''questionId'', JStr ''q1''), (''text'', JStr ''2+2?''),
               (''options'',
                JArr [JObj [(''id'', JStr ''o1''), (''text'', JStr ''3''), (''count'', JNum 0)],
                      JObj [(''id'', JStr ''o2''), (''text'', JStr ''4''), (''count'', JNum 1)]]),
               (''totalAnswers'', JNum 1), (''durationSec'', JNum 10)]) = None
   \<and> field ''finishedAt''
        (JObj [(''questionId'', JStr ''q1''), (''text'', JStr ''2+2?''),
               (''options'',
                JArr [JObj [(''id'', JStr ''o1''), (''text'', JStr ''3''), (''count'', JNum 0)],
                      JObj [(''id'', JStr ''o2''), (''text'', JStr ''4''), (''count'', JNum 1)]]),
               (''totalAnswers'', JNum 1), (''durationSec'', JNum 10)]) = None
   \<and> snd (on_endQuestion (run init evs_answered) ''t'' (Some ''poll01'') 1002)
       = snd (on_timeout (run init evs_answered) 0 2000)"
  by code_simp

text \<open>
  C9, amended. Whenever a question finishes, the \<open>questionFinished\<close> message to the room
  carries \<open>questionId\<close>, \<open>text\<close>, the options with their final counts, \<open>totalAnswers\<close> and
  \<open>durationSec\<close>, and nothing else; the reason and the \<open>finishedAt\<close> timestamp are kept
  only in the entry put in front of the poll's history.
\<close>

theorem question_finished_payload:
  assumes "heap_get s a = Some p" and "currentQuestion p = Some q"
  shows "snd (endQuestion s a rs now) =
           [Emit (ToRoom (p_id p)) ''questionFinished''
              (JObj [(''questionId'', JStr (q_id q)), (''text'', JStr (q_text q)),
                     (''options'', JArr (map enc_opt (q_options q))),
                     (''totalAnswers'', JNum (int (q_totalAnswers q))),
                     (''durationSec'', JNum (q_durationSec q))])]
         \<and> map_option pastQuestions (heap_get (fst (endQuestion s a rs now)) a) =
             Some (\<lparr>h_questionId = q_id q, h_text = q_text q, h_options = q_options q,
                    h_totalAnswers = q_totalAnswers q, h_durationSec = q_durationSec q,
                    h_finishedAt = now, h_reason = rs\<rparr> # pastQuestions p)"
  using assms heap_get_set_same[OF assms(1)]
  by (simp add: endQuestion_current enc_result_def result_of_def past_of_def)

theorem question_finished_payload_witness:
  "heap_get (run init evs_answered) 0 = Some poll_answered
   \<and> currentQuestion poll_answered = Some q1_answered
   \<and> snd (endQuestion (run init evs_answered) 0 Teacher_end 1002) =
       [Emit (ToRoom ''poll01'') ''questionFinished''
          (JObj [(''questionId'', JStr ''q1''), (''text'', JStr ''2+2?''),
                 (''options'',
                  JArr [JObj [(''id'', JStr ''o1''), (''text'', JStr ''3''), (''count'', JNum 0)],
                        JObj [(''id'', JStr ''o2''), (''text'', JStr ''4''), (''count'', JNum 1)]]),
                 (''totalAnswers'', JNum 1), (''durationSec'', JNum 10)])]"
proof -
  have h1: "heap_get (run init evs_answered) 0 = Some poll_answered" by code_simp
  have h2: "currentQuestion poll_answered = Some q1_answered" by code_simp
  have h3: "p_id poll_answered = ''poll01''" by code_simp
  have h4: "JObj [(''questionId'', JStr (q_id q1_answered)), (''text'', JStr (q_text q1_answered)),
                     (''options'', JArr (map enc_opt (q_options q1_answered))),
                     (''totalAnswers'', JNum (int (q_totalAnswers q1_answered))),
                     (''durationSec'', JNum (q_durationSec q1_answered))] =
     JObj [(''questionId'', JStr ''q1''), (''text'', JStr ''2+2?''),
                 (''options'',
                  JArr [JObj [(''id'', JStr ''o1''), (''text'', JStr ''3''), (''count'', JNum 0)],
                        JObj [(''id'', JStr ''o2''), (''text'', JStr ''4''), (''count'', JNum 1)]]),
                 (''totalAnswers'', JNum 1), (''durationSec'', JNum 10)]"
    by code_simp
  show ?thesis
    using h1 h2 h3 h4 question_finished_payload[OF h1 h2, of Teacher_end 1002]
    by simp
qed

end
